theory Spec2Isabelle
  imports Complex_Main
begin

section \<open>JavaScript numbers\<close>

text \<open>
  Every quantity of the particle animations is a JavaScript Number. The model keeps the
  special values the program can produce (\<open>NaN\<close> from \<open>0 / 0\<close>, the two infinities from
  a non-zero value divided by zero) and idealises the finite values as real numbers:
  rounding and overflow of the 64-bit representation are not modelled. Negative zero is
  not modelled either; the only divisors of the program that can be zero are results of
  \<open>Math.sqrt\<close> of a sum of squares, which is \<open>+0\<close>.
\<close>

datatype jsnum = Fin real | PInf | NInf | NaN

instantiation jsnum :: "{plus, minus, times, inverse, ord}"
begin

fun plus_jsnum :: "jsnum \<Rightarrow> jsnum \<Rightarrow> jsnum" where
  "plus_jsnum (Fin a) (Fin b) = Fin (a + b)"
| "plus_jsnum NaN _ = NaN"
| "plus_jsnum _ NaN = NaN"
| "plus_jsnum PInf NInf = NaN"
| "plus_jsnum NInf PInf = NaN"
| "plus_jsnum PInf _ = PInf"
| "plus_jsnum _ PInf = PInf"
| "plus_jsnum NInf _ = NInf"
| "plus_jsnum _ NInf = NInf"

fun minus_jsnum :: "jsnum \<Rightarrow> jsnum \<Rightarrow> jsnum" where
  "minus_jsnum (Fin a) (Fin b) = Fin (a - b)"
| "minus_jsnum NaN _ = NaN"
| "minus_jsnum _ NaN = NaN"
| "minus_jsnum PInf PInf = NaN"
| "minus_jsnum NInf NInf = NaN"
| "minus_jsnum PInf _ = PInf"
| "minus_jsnum _ NInf = PInf"
| "minus_jsnum NInf _ = NInf"
| "minus_jsnum _ PInf = NInf"

fun times_jsnum :: "jsnum \<Rightarrow> jsnum \<Rightarrow> jsnum" where
  "times_jsnum (Fin a) (Fin b) = Fin (a * b)"
| "times_jsnum NaN _ = NaN"
| "times_jsnum _ NaN = NaN"
| "times_jsnum (Fin a) PInf = (if a = 0 then NaN else if 0 < a then PInf else NInf)"
| "times_jsnum (Fin a) NInf = (if a = 0 then NaN else if 0 < a then NInf else PInf)"
| "times_jsnum PInf (Fin b) = (if b = 0 then NaN else if 0 < b then PInf else NInf)"
| "times_jsnum NInf (Fin b) = (if b = 0 then NaN else if 0 < b then NInf else PInf)"
| "times_jsnum PInf PInf = PInf"
| "times_jsnum NInf NInf = PInf"
| "times_jsnum PInf NInf = NInf"
| "times_jsnum NInf PInf = NInf"

fun divide_jsnum :: "jsnum \<Rightarrow> jsnum \<Rightarrow> jsnum" where
  "divide_jsnum (Fin a) (Fin b) =
     (if b = 0 then (if a = 0 then NaN else if 0 < a then PInf else NInf)
      else Fin (a / b))"
| "divide_jsnum NaN _ = NaN"
| "divide_jsnum _ NaN = NaN"
| "divide_jsnum (Fin a) _ = Fin 0"
| "divide_jsnum PInf (Fin b) = (if 0 \<le> b then PInf else NInf)"
| "divide_jsnum NInf (Fin b) = (if 0 \<le> b then NInf else PInf)"
| "divide_jsnum _ _ = NaN"

definition inverse_jsnum :: "jsnum \<Rightarrow> jsnum" where
  "inverse_jsnum a = divide (Fin 1) a"

fun less_jsnum :: "jsnum \<Rightarrow> jsnum \<Rightarrow> bool" where
  "less_jsnum (Fin a) (Fin b) = (a < b)"
| "less_jsnum NaN _ = False"
| "less_jsnum _ NaN = False"
| "less_jsnum NInf NInf = False"
| "less_jsnum NInf _ = True"
| "less_jsnum PInf _ = False"
| "less_jsnum (Fin a) PInf = True"
| "less_jsnum (Fin a) NInf = False"

definition less_eq_jsnum :: "jsnum \<Rightarrow> jsnum \<Rightarrow> bool" where
  "less_eq_jsnum a b = (a < b \<or> (a = b \<and> a \<noteq> NaN))"

instance ..

end

text \<open>\<open>Math.sqrt\<close>: \<open>NaN\<close> on a negative argument.\<close>

fun jsqrt :: "jsnum \<Rightarrow> jsnum" where
  "jsqrt (Fin a) = (if a < 0 then NaN else Fin (sqrt a))"
| "jsqrt PInf = PInf"
| "jsqrt NInf = NaN"
| "jsqrt NaN = NaN"

fun isFinite :: "jsnum \<Rightarrow> bool" where
  "isFinite (Fin a) = True"
| "isFinite _ = False"

section \<open>NeuralCanvas: the particle step\<close>

text \<open>
  A particle of \<open>NeuralCanvas.createParticles\<close>: the object literal
  \<open>{x, y, vx, vy, size, color}\<close>.
\<close>

record particle =
  p_x :: jsnum
  p_y :: jsnum
  p_vx :: jsnum
  p_vy :: jsnum
  p_size :: jsnum
  p_color :: string

text \<open>
  The body of the loop of \<open>NeuralCanvas.draw\<close>, in the order of the source:
  the move (\<open>p.x += p.vx; p.y += p.vy\<close>), the boundary check on each axis, and the
  mouse interaction. \<open>w\<close> and \<open>h\<close> are \<open>this.width\<close> and \<open>this.height\<close>,
  \<open>r\<close> is \<open>this.mouseRadius\<close>, \<open>mx\<close> and \<open>my\<close> are \<open>STATE.mouseX\<close> and
  \<open>STATE.mouseY\<close>.
\<close>

definition move :: "particle \<Rightarrow> particle" where
  "move p = p\<lparr>p_x := p_x p + p_vx p, p_y := p_y p + p_vy p\<rparr>"

definition bounceX :: "jsnum \<Rightarrow> particle \<Rightarrow> particle" where
  "bounceX w p = (if p_x p < Fin 0 \<or> p_x p > w then p\<lparr>p_vx := p_vx p * Fin (- 1)\<rparr> else p)"

definition bounceY :: "jsnum \<Rightarrow> particle \<Rightarrow> particle" where
  "bounceY h p = (if p_y p < Fin 0 \<or> p_y p > h then p\<lparr>p_vy := p_vy p * Fin (- 1)\<rparr> else p)"

text \<open>\<open>distance\<close> of the source: from the particle to the pointer.\<close>

definition distance :: "jsnum \<Rightarrow> jsnum \<Rightarrow> particle \<Rightarrow> jsnum" where
  "distance mx my p =
     (let dx = mx - p_x p; dy = my - p_y p in jsqrt (dx * dx + dy * dy))"

definition mouseInteraction :: "jsnum \<Rightarrow> jsnum \<Rightarrow> jsnum \<Rightarrow> particle \<Rightarrow> particle" where
  "mouseInteraction r mx my p =
     (let dx = mx - p_x p;
          dy = my - p_y p;
          d = jsqrt (dx * dx + dy * dy)
      in if d < r then
           (let forceDirectionX = dx / d;
                forceDirectionY = dy / d;
                force = (r - d) / r;
                directionX = forceDirectionX * force * Fin 2;
                directionY = forceDirectionY * force * Fin 2
            in p\<lparr>p_x := p_x p - directionX, p_y := p_y p - directionY\<rparr>)
         else p)"

definition updateParticle ::
  "jsnum \<Rightarrow> jsnum \<Rightarrow> jsnum \<Rightarrow> jsnum \<Rightarrow> jsnum \<Rightarrow> particle \<Rightarrow> particle" where
  "updateParticle w h r mx my p = mouseInteraction r mx my (bounceY h (bounceX w (move p)))"

text \<open>\<open>this.mouseRadius = 150\<close>, set by the constructor.\<close>

definition mouseRadius :: jsnum where
  "mouseRadius = Fin 150"

text \<open>The inactive pointer of \<open>InputHandler.handleTouchEnd\<close>: \<open>(-9999, -9999)\<close>.\<close>

definition sentinel :: jsnum where
  "sentinel = Fin (- 9999)"

text \<open>
  A run of frames for one particle: the loop body applied once per frame, each frame
  with the pointer position current at that frame.
\<close>

definition frames ::
  "jsnum \<Rightarrow> jsnum \<Rightarrow> jsnum \<Rightarrow> (jsnum \<times> jsnum) list \<Rightarrow> particle \<Rightarrow> particle" where
  "frames w h r ms p = fold (\<lambda>m q. updateParticle w h r (fst m) (snd m) q) ms p"

text \<open>
  The displacement the mouse interaction applies to a particle, and its magnitude:
  the position after the interaction minus the position before.
\<close>

definition displacement :: "jsnum \<Rightarrow> jsnum \<Rightarrow> jsnum \<Rightarrow> particle \<Rightarrow> jsnum" where
  "displacement r mx my p =
     (let q = mouseInteraction r mx my p;
          ex = p_x q - p_x p;
          ey = p_y q - p_y p
      in jsqrt (ex * ex + ey * ey))"

text \<open>The claimed invariant: the position lies in \<open>[0, w] \<times> [0, h]\<close>.\<close>

definition inBounds :: "jsnum \<Rightarrow> jsnum \<Rightarrow> particle \<Rightarrow> bool" where
  "inBounds w h p = (Fin 0 \<le> p_x p \<and> p_x p \<le> w \<and> Fin 0 \<le> p_y p \<and> p_y p \<le> h)"

section \<open>NeuralCanvas: the mouse interaction with underflow\<close>

text \<open>
  Where a result depends on whether a product is exactly zero, the model above is too
  coarse: the machine rounds a product of finite factors to \<open>0\<close> when its absolute value
  is at most \<open>1 / 2 ^ 1075\<close>, half the smallest positive double. \<open>mulU\<close> is the
  product with that underflow (and exact otherwise), and \<open>distanceU\<close> and
  \<open>mouseInteractionU\<close> are the same lines of \<open>NeuralCanvas.draw\<close> as \<open>distance\<close> and
  \<open>mouseInteraction\<close>, with every product computed by \<open>mulU\<close>. The difference
  \<open>dx = STATE.mouseX - p.x\<close> of two doubles is zero only when they are equal.
\<close>

definition underflow :: real where
  "underflow = 1 / 2 ^ 1075"

fun mulU :: "jsnum \<Rightarrow> jsnum \<Rightarrow> jsnum" where
  "mulU (Fin a) (Fin b) = (if \<bar>a * b\<bar> \<le> underflow then Fin 0 else Fin (a * b))"
| "mulU a b = a * b"

definition distanceU :: "jsnum \<Rightarrow> jsnum \<Rightarrow> particle \<Rightarrow> jsnum" where
  "distanceU mx my p =
     (let dx = mx - p_x p; dy = my - p_y p in jsqrt (mulU dx dx + mulU dy dy))"

definition mouseInteractionU :: "jsnum \<Rightarrow> jsnum \<Rightarrow> jsnum \<Rightarrow> particle \<Rightarrow> particle" where
  "mouseInteractionU r mx my p =
     (let dx = mx - p_x p;
          dy = my - p_y p;
          d = jsqrt (mulU dx dx + mulU dy dy)
      in if d < r then
           (let forceDirectionX = dx / d;
                forceDirectionY = dy / d;
                force = (r - d) / r;
                directionX = mulU (mulU forceDirectionX force) (Fin 2);
                directionY = mulU (mulU forceDirectionY force) (Fin 2)
            in p\<lparr>p_x := p_x p - directionX, p_y := p_y p - directionY\<rparr>)
         else p)"

section \<open>NeuralCanvas: the connection pass\<close>

text \<open>
  The calls on the 2D context, as a log. \<open>FillArc x y radius fillStyle globalAlpha\<close>
  is \<open>beginPath; arc(x, y, radius, 0, 2\<pi>); fill\<close>; \<open>StrokeLine alpha lineWidth x1 y1 x2 y2\<close>
  is \<open>beginPath; moveTo(x1, y1); lineTo(x2, y2); stroke\<close>, where \<open>alpha\<close> is the
  opacity the line is stroked with (the alpha of the \<open>rgba\<close> stroke style in
  \<open>NeuralCanvas\<close>, \<open>globalAlpha\<close> in \<open>BackgroundSystem\<close>).
\<close>

datatype canvas_op =
  ClearRect jsnum jsnum jsnum jsnum
| FillArc jsnum jsnum jsnum string jsnum
| StrokeLine jsnum jsnum jsnum jsnum jsnum jsnum

text \<open>\<open>SYSTEM_CONFIG.animation.connectionRadius\<close>.\<close>

definition connectionRadius :: jsnum where
  "connectionRadius = Fin 150"

definition pairDist :: "particle \<Rightarrow> particle \<Rightarrow> jsnum" where
  "pairDist p q =
     (let dx = p_x p - p_x q; dy = p_y p - p_y q in jsqrt (dx * dx + dy * dy))"

text \<open>
  The two loops of \<open>NeuralCanvas.connectParticles\<close>, \<open>a\<close> from \<open>0\<close> and \<open>b\<close> from
  \<open>a\<close>: the pairs of indices that pass the test \<open>dist < maxDist\<close>, each with its
  \<open>opacity\<close>.
\<close>

definition connections :: "jsnum \<Rightarrow> particle list \<Rightarrow> (nat \<times> nat \<times> jsnum) list" where
  "connections maxDist ps =
     concat (map (\<lambda>a.
       concat (map (\<lambda>b.
         (let dist = pairDist (ps ! a) (ps ! b)
          in if dist < maxDist then [(a, b, Fin 1 - dist / maxDist)] else []))
         [a..<length ps]))
       [0..<length ps])"

definition connectParticles :: "jsnum \<Rightarrow> particle list \<Rightarrow> canvas_op list" where
  "connectParticles maxDist ps =
     map (\<lambda>(a, b, opacity).
       StrokeLine (opacity * Fin 0.2) (Fin 1)
         (p_x (ps ! a)) (p_y (ps ! a)) (p_x (ps ! b)) (p_y (ps ! b)))
       (connections maxDist ps)"

section \<open>NeuralCanvas: the component\<close>

text \<open>
  The globals the component reads and writes: the window's size, whether the document
  has the element of \<open>SYSTEM_CONFIG.selectors.canvas\<close>,
  \<open>SYSTEM_CONFIG.animation.particleCount\<close>, \<open>SYSTEM_CONFIG.core.reducedMotion\<close>,
  \<open>STATE.mouseX\<close> and \<open>STATE.mouseY\<close>, the values \<open>Math.random\<close> returns (a sequence,
  and how many of them have been used), the events the window has listeners for, the
  number of calls of \<open>requestAnimationFrame\<close>, and the log of the canvas.
\<close>

record globals =
  g_innerWidth :: jsnum
  g_innerHeight :: jsnum
  g_hasCanvas :: bool
  g_particleCount :: nat
  g_reducedMotion :: bool
  g_mouseX :: jsnum
  g_mouseY :: jsnum
  g_random :: "nat \<Rightarrow> real"
  g_used :: nat
  g_listeners :: "string list"
  g_frameRequests :: nat
  g_canvasOps :: "canvas_op list"

text \<open>
  The object. \<open>nc_canvas\<close> and \<open>nc_ctx\<close> say whether \<open>this.canvas\<close> is an element
  (not \<open>null\<close>) and whether \<open>this.ctx\<close> is defined; \<open>nc_particles\<close> is \<open>None\<close> while
  \<open>this.particles\<close> is undefined. A numeric field that is undefined is \<open>NaN\<close>: every use
  of \<open>this.width\<close>, \<open>this.height\<close> and \<open>this.mouseRadius\<close> is an arithmetic operand,
  a comparison or an argument of \<open>clearRect\<close>, and each converts undefined to \<open>NaN\<close>.
  \<open>this.connections\<close> is never read and is left out.
\<close>

record neuralCanvas =
  nc_canvas :: bool
  nc_ctx :: bool
  nc_particles :: "particle list option"
  nc_width :: jsnum
  nc_height :: jsnum
  nc_mouseRadius :: jsnum

datatype error = TypeError

definition cyan :: string where
  "cyan = ''#00f0ff''"

text \<open>The particle the \<open>i\<close>-th round of the loop of \<open>createParticles\<close> pushes.\<close>

definition newParticle :: "(nat \<Rightarrow> real) \<Rightarrow> nat \<Rightarrow> jsnum \<Rightarrow> jsnum \<Rightarrow> nat \<Rightarrow> particle" where
  "newParticle rnd k w h i =
     \<lparr>p_x = Fin (rnd (k + 5 * i)) * w,
      p_y = Fin (rnd (k + 5 * i + 1)) * h,
      p_vx = (Fin (rnd (k + 5 * i + 2)) - Fin 0.5) * Fin 1.5,
      p_vy = (Fin (rnd (k + 5 * i + 3)) - Fin 0.5) * Fin 1.5,
      p_size = Fin (rnd (k + 5 * i + 4)) * Fin 2 + Fin 1,
      p_color = cyan\<rparr>"

definition NeuralCanvas_createParticles :: "globals \<Rightarrow> neuralCanvas \<Rightarrow> globals \<times> neuralCanvas" where
  "NeuralCanvas_createParticles g nc =
     (let count = g_particleCount g
      in (g\<lparr>g_used := g_used g + 5 * count\<rparr>,
          nc\<lparr>nc_particles :=
               Some (map (newParticle (g_random g) (g_used g) (nc_width nc) (nc_height nc))
                       [0..<count])\<rparr>))"

text \<open>
  \<open>resize\<close> writes \<open>this.canvas.width\<close>: a \<open>TypeError\<close> when \<open>this.canvas\<close> is
  \<open>null\<close>.
\<close>

definition NeuralCanvas_resize :: "globals \<Rightarrow> neuralCanvas \<Rightarrow> error + globals \<times> neuralCanvas" where
  "NeuralCanvas_resize g nc =
     (let nc1 = nc\<lparr>nc_width := g_innerWidth g, nc_height := g_innerHeight g\<rparr>
      in if \<not> nc_canvas nc1 then Inl TypeError
         else
           (let g1 = g\<lparr>g_particleCount := (if nc_width nc1 > Fin 1000 then 120 else 60)\<rparr>
            in Inr (NeuralCanvas_createParticles g1 nc1)))"

definition NeuralCanvas_handleMouseMove :: "jsnum \<times> jsnum \<Rightarrow> globals \<Rightarrow> globals" where
  "NeuralCanvas_handleMouseMove e g = g\<lparr>g_mouseX := fst e, g_mouseY := snd e\<rparr>"

text \<open>
  \<open>draw\<close> calls \<open>this.ctx.clearRect\<close> and reads \<open>this.particles.length\<close>: a
  \<open>TypeError\<close> when either is undefined.
\<close>

definition NeuralCanvas_draw :: "globals \<Rightarrow> neuralCanvas \<Rightarrow> error + globals \<times> neuralCanvas" where
  "NeuralCanvas_draw g nc =
     (if \<not> nc_ctx nc then Inl TypeError
      else case nc_particles nc of
        None \<Rightarrow> Inl TypeError
      | Some ps \<Rightarrow>
          (let ps1 = map (updateParticle (nc_width nc) (nc_height nc) (nc_mouseRadius nc)
                            (g_mouseX g) (g_mouseY g)) ps;
               ops = ClearRect (Fin 0) (Fin 0) (nc_width nc) (nc_height nc)
                     # map (\<lambda>p. FillArc (p_x p) (p_y p) (p_size p) (p_color p) (Fin 1)) ps1
                     @ connectParticles connectionRadius ps1
           in Inr (g\<lparr>g_canvasOps := g_canvasOps g @ ops\<rparr>, nc\<lparr>nc_particles := Some ps1\<rparr>)))"

definition NeuralCanvas_animate :: "globals \<Rightarrow> neuralCanvas \<Rightarrow> error + globals \<times> neuralCanvas" where
  "NeuralCanvas_animate g nc =
     (if \<not> g_reducedMotion g then
        (case NeuralCanvas_draw g nc of
           Inl e \<Rightarrow> Inl e
         | Inr (g1, nc1) \<Rightarrow> Inr (g1\<lparr>g_frameRequests := g_frameRequests g1 + 1\<rparr>, nc1))
      else Inr (g\<lparr>g_frameRequests := g_frameRequests g + 1\<rparr>, nc))"

definition NeuralCanvas_init :: "globals \<Rightarrow> neuralCanvas \<Rightarrow> error + globals \<times> neuralCanvas" where
  "NeuralCanvas_init g nc =
     (case NeuralCanvas_resize g nc of
        Inl e \<Rightarrow> Inl e
      | Inr (g1, nc1) \<Rightarrow>
          (case NeuralCanvas_createParticles g1 nc1 of (g2, nc2) \<Rightarrow>
             (case NeuralCanvas_animate g2 nc2 of
                Inl e \<Rightarrow> Inl e
              | Inr (g3, nc3) \<Rightarrow>
                  Inr (g3\<lparr>g_listeners := g_listeners g3 @ [''resize'', ''mousemove'']\<rparr>, nc3))))"

text \<open>
  The constructor: \<open>if (!this.canvas) return;\<close> leaves every other field undefined.
\<close>

definition uninitialised :: neuralCanvas where
  "uninitialised = \<lparr>nc_canvas = False, nc_ctx = False, nc_particles = None,
                     nc_width = NaN, nc_height = NaN, nc_mouseRadius = NaN\<rparr>"

definition NeuralCanvas_constructor :: "globals \<Rightarrow> error + globals \<times> neuralCanvas" where
  "NeuralCanvas_constructor g =
     (if \<not> g_hasCanvas g then Inr (g, uninitialised)
      else
        NeuralCanvas_init g
          \<lparr>nc_canvas = True, nc_ctx = True, nc_particles = Some [],
           nc_width = g_innerWidth g, nc_height = g_innerHeight g, nc_mouseRadius = Fin 150\<rparr>)"

text \<open>
  \<open>SystemSecrets.activateGodMode\<close>: \<open>new NeuralCanvas()\<close>, then
  \<open>matrixCanvas.particles.forEach(p => p.color = '#ff00ff')\<close>.
\<close>

definition activateGodMode :: "globals \<Rightarrow> error + globals \<times> neuralCanvas" where
  "activateGodMode g =
     (case NeuralCanvas_constructor g of
        Inl e \<Rightarrow> Inl e
      | Inr (g1, nc) \<Rightarrow>
          (case nc_particles nc of
             None \<Rightarrow> Inl TypeError
           | Some ps \<Rightarrow>
               Inr (g1, nc\<lparr>nc_particles := Some (map (\<lambda>p. p\<lparr>p_color := ''#ff00ff''\<rparr>) ps)\<rparr>)))"

section \<open>BackgroundParticle\<close>

text \<open>
  \<open>Math.random\<close> is a sequence \<open>rnd\<close> of values and the number \<open>k\<close> of values used so
  far; a function that calls it returns the new count.
\<close>

record bgParticle =
  b_w :: jsnum
  b_h :: jsnum
  b_x :: jsnum
  b_y :: jsnum
  b_vx :: jsnum
  b_vy :: jsnum
  b_size :: jsnum
  b_life :: jsnum

text \<open>\<open>CONFIG.bg.baseSpeed\<close>.\<close>

definition baseSpeed :: jsnum where
  "baseSpeed = Fin 0.3"

definition BackgroundParticle_reset :: "(nat \<Rightarrow> real) \<Rightarrow> nat \<Rightarrow> bgParticle \<Rightarrow> nat \<times> bgParticle" where
  "BackgroundParticle_reset rnd k p =
     (k + 6,
      p\<lparr>b_x := Fin (rnd k) * b_w p,
        b_y := Fin (rnd (k + 1)) * b_h p,
        b_vx := (Fin (rnd (k + 2)) - Fin 0.5) * baseSpeed,
        b_vy := (Fin (rnd (k + 3)) - Fin 0.5) * baseSpeed,
        b_size := Fin (rnd (k + 4)) * Fin 2,
        b_life := Fin (rnd (k + 5)) * Fin 100\<rparr>)"

text \<open>The constructor sets \<open>w\<close> and \<open>h\<close> and calls \<open>reset\<close>, which defines the rest.\<close>

definition BackgroundParticle_constructor ::
  "(nat \<Rightarrow> real) \<Rightarrow> nat \<Rightarrow> jsnum \<Rightarrow> jsnum \<Rightarrow> nat \<times> bgParticle" where
  "BackgroundParticle_constructor rnd k w h =
     BackgroundParticle_reset rnd k
       \<lparr>b_w = w, b_h = h, b_x = NaN, b_y = NaN, b_vx = NaN, b_vy = NaN,
        b_size = NaN, b_life = NaN\<rparr>"

definition BackgroundParticle_update :: "(nat \<Rightarrow> real) \<Rightarrow> nat \<Rightarrow> bgParticle \<Rightarrow> nat \<times> bgParticle" where
  "BackgroundParticle_update rnd k p =
     (let p1 = p\<lparr>b_x := b_x p + b_vx p, b_y := b_y p + b_vy p, b_life := b_life p + Fin 1\<rparr>
      in if b_x p1 < Fin 0 \<or> b_x p1 > b_w p1 \<or> b_y p1 < Fin 0 \<or> b_y p1 > b_h p1
         then BackgroundParticle_reset rnd k p1
         else (k, p1))"

text \<open>\<open>n\<close> calls of \<open>update\<close> on one particle, one per frame.\<close>

fun BackgroundParticle_updates ::
  "(nat \<Rightarrow> real) \<Rightarrow> nat \<Rightarrow> bgParticle \<Rightarrow> nat \<Rightarrow> nat \<times> bgParticle" where
  "BackgroundParticle_updates rnd k p 0 = (k, p)"
| "BackgroundParticle_updates rnd k p (Suc n) =
     (case BackgroundParticle_update rnd k p of
        (k1, q) \<Rightarrow> BackgroundParticle_updates rnd k1 q n)"

section \<open>CanvasController and BackgroundSystem\<close>

text \<open>
  A canvas element of the document: its parent's \<open>clientWidth\<close> and \<open>clientHeight\<close>, or
  no parent.
\<close>

record element =
  el_parent :: "(jsnum \<times> jsnum) option"

text \<open>
  \<open>cc_canvas\<close> is \<open>None\<close> when \<open>document.getElementById\<close> found nothing. \<open>this.ctx\<close> and
  \<open>this.isValid\<close> are set once, by the constructor, from \<open>this.canvas\<close>, and nothing
  assigns any of the three afterwards: \<open>isValid\<close> is \<open>!!this.canvas\<close>. The writes of
  \<open>resize\<close> to the element and the scaling of the context are left out.
\<close>

record canvasController =
  cc_canvas :: "element option"
  cc_width :: jsnum
  cc_height :: jsnum

definition isValid :: "canvasController \<Rightarrow> bool" where
  "isValid cc = (cc_canvas cc \<noteq> None)"

text \<open>
  The globals of this script: the element with id \<open>neural-canvas\<close> if the document has
  one, \<open>CONFIG.core.isMobile\<close>, \<open>Math.random\<close>, the events with a listener at
  \<open>Events\<close>, and the log of the canvas.
\<close>

record page =
  e_canvasElement :: "element option"
  e_isMobile :: bool
  e_random :: "nat \<Rightarrow> real"
  e_used :: nat
  e_listeners :: "string list"
  e_canvasOps :: "canvas_op list"

definition CanvasController_resize :: "canvasController \<Rightarrow> canvasController" where
  "CanvasController_resize cc =
     (if \<not> isValid cc then cc
      else case cc_canvas cc of
        None \<Rightarrow> cc
      | Some el \<Rightarrow>
          (case el_parent el of
             None \<Rightarrow> cc
           | Some (pw, ph) \<Rightarrow> cc\<lparr>cc_width := pw, cc_height := ph\<rparr>))"

definition CanvasController_clear :: "canvasController \<Rightarrow> canvas_op list" where
  "CanvasController_clear cc =
     (if \<not> isValid cc then [] else [ClearRect (Fin 0) (Fin 0) (cc_width cc) (cc_height cc)])"

definition CanvasController_constructor :: "page \<Rightarrow> page \<times> canvasController" where
  "CanvasController_constructor pg =
     (let cc = \<lparr>cc_canvas = e_canvasElement pg, cc_width = Fin 0, cc_height = Fin 0\<rparr>
      in if isValid cc
         then (pg\<lparr>e_listeners := e_listeners pg @ [''resize'']\<rparr>, CanvasController_resize cc)
         else (pg, cc))"

record backgroundSystem =
  bs_canvas :: canvasController
  bs_particles :: "bgParticle list"
  bs_initialized :: bool

text \<open>\<open>CONFIG.bg.particleCountMobile\<close>, \<open>particleCountDesktop\<close> and \<open>connectionDistance\<close>.\<close>

definition particleCountMobile :: nat where
  "particleCountMobile = 40"

definition particleCountDesktop :: nat where
  "particleCountDesktop = 100"

definition connectionDistance :: jsnum where
  "connectionDistance = Fin 140"

definition BackgroundSystem_createParticles :: "page \<Rightarrow> backgroundSystem \<Rightarrow> page \<times> backgroundSystem" where
  "BackgroundSystem_createParticles pg bs =
     (let count = (if e_isMobile pg then particleCountMobile else particleCountDesktop)
      in (pg\<lparr>e_used := e_used pg + 6 * count\<rparr>,
          bs\<lparr>bs_particles :=
               map (\<lambda>i. snd (BackgroundParticle_constructor (e_random pg) (e_used pg + 6 * i)
                                 (cc_width (bs_canvas bs)) (cc_height (bs_canvas bs))))
                 [0..<count]\<rparr>))"

definition BackgroundSystem_init :: "page \<Rightarrow> backgroundSystem \<Rightarrow> page \<times> backgroundSystem" where
  "BackgroundSystem_init pg bs =
     (case BackgroundSystem_createParticles pg bs of (pg1, bs1) \<Rightarrow>
        (pg1\<lparr>e_listeners := e_listeners pg1 @ [''resize'']\<rparr>, bs1\<lparr>bs_initialized := True\<rparr>))"

definition BackgroundSystem_constructor :: "page \<Rightarrow> page \<times> backgroundSystem" where
  "BackgroundSystem_constructor pg =
     (case CanvasController_constructor pg of (pg1, cc) \<Rightarrow>
        (let bs = \<lparr>bs_canvas = cc, bs_particles = [], bs_initialized = False\<rparr>
         in if isValid cc then BackgroundSystem_init pg1 bs else (pg1, bs)))"

text \<open>\<open>this.particles.forEach(p => p.update())\<close>.\<close>

fun updateAll :: "(nat \<Rightarrow> real) \<Rightarrow> nat \<Rightarrow> bgParticle list \<Rightarrow> nat \<times> bgParticle list" where
  "updateAll rnd k [] = (k, [])"
| "updateAll rnd k (p # ps) =
     (case BackgroundParticle_update rnd k p of (k1, q) \<Rightarrow>
        (case updateAll rnd k1 ps of (k2, qs) \<Rightarrow> (k2, q # qs)))"

definition BackgroundSystem_update :: "page \<Rightarrow> backgroundSystem \<Rightarrow> page \<times> backgroundSystem" where
  "BackgroundSystem_update pg bs =
     (if \<not> bs_initialized bs then (pg, bs)
      else case updateAll (e_random pg) (e_used pg) (bs_particles bs) of
        (k, qs) \<Rightarrow> (pg\<lparr>e_used := k\<rparr>, bs\<lparr>bs_particles := qs\<rparr>))"

definition bgPairDist :: "bgParticle \<Rightarrow> bgParticle \<Rightarrow> jsnum" where
  "bgPairDist p q =
     (let dx = b_x p - b_x q; dy = b_y p - b_y q in jsqrt (dx * dx + dy * dy))"

text \<open>
  The inner loop of \<open>BackgroundSystem.draw\<close> for the particle \<open>i\<close>, \<open>j\<close> from \<open>i + 1\<close>:
  the pairs that pass the test \<open>dist < maxDist\<close>, each with its \<open>globalAlpha\<close>.
\<close>

definition bgConnections :: "jsnum \<Rightarrow> bgParticle list \<Rightarrow> nat \<Rightarrow> (nat \<times> nat \<times> jsnum) list" where
  "bgConnections maxDist ps i =
     concat (map (\<lambda>j.
       (let dist = bgPairDist (ps ! i) (ps ! j)
        in if dist < maxDist then [(i, j, Fin 0.15 * (Fin 1 - dist / maxDist))] else []))
       [Suc i..<length ps])"

definition BackgroundSystem_draw :: "page \<Rightarrow> backgroundSystem \<Rightarrow> page" where
  "BackgroundSystem_draw pg bs =
     (if \<not> bs_initialized bs then pg
      else
        (let ps = bs_particles bs;
             ops = CanvasController_clear (bs_canvas bs)
                   @ concat (map (\<lambda>i.
                       FillArc (b_x (ps ! i)) (b_y (ps ! i)) (b_size (ps ! i)) cyan (Fin 0.3)
                       # map (\<lambda>(a, b, alpha).
                              StrokeLine alpha (Fin 0.5)
                                (b_x (ps ! a)) (b_y (ps ! a)) (b_x (ps ! b)) (b_y (ps ! b)))
                           (bgConnections connectionDistance ps i))
                       [0..<length ps])
         in pg\<lparr>e_canvasOps := e_canvasOps pg @ ops\<rparr>))"

section \<open>InputHandler, Vector2 and NeuralNode\<close>

text \<open>
  The script of \<open>BackgroundSystem\<close> keeps the pointer in \<open>STATE.mouse\<close>, which starts
  at \<open>(-9999, -9999)\<close>, inactive, and is written by the handlers of \<open>InputHandler\<close>.
  An event is given by its \<open>clientX\<close> and \<open>clientY\<close>, a touch event by those of its
  touches. \<open>Events.emit('click', ...)\<close> in \<open>handleMouseDown\<close> has no listener and is
  left out.
\<close>

record mouseState =
  m_x :: jsnum
  m_y :: jsnum
  m_isActive :: bool
  m_isClicking :: bool

definition initialMouse :: mouseState where
  "initialMouse = \<lparr>m_x = sentinel, m_y = sentinel, m_isActive = False, m_isClicking = False\<rparr>"

definition InputHandler_handleMouseMove :: "jsnum \<times> jsnum \<Rightarrow> mouseState \<Rightarrow> mouseState" where
  "InputHandler_handleMouseMove e st = st\<lparr>m_x := fst e, m_y := snd e, m_isActive := True\<rparr>"

definition InputHandler_handleMouseDown :: "mouseState \<Rightarrow> mouseState" where
  "InputHandler_handleMouseDown st = st\<lparr>m_isClicking := True\<rparr>"

definition InputHandler_handleMouseUp :: "mouseState \<Rightarrow> mouseState" where
  "InputHandler_handleMouseUp st = st\<lparr>m_isClicking := False\<rparr>"

definition InputHandler_handleTouchStart :: "(jsnum \<times> jsnum) list \<Rightarrow> mouseState \<Rightarrow> mouseState" where
  "InputHandler_handleTouchStart touches st =
     (if length touches > 0
      then st\<lparr>m_x := fst (touches ! 0), m_y := snd (touches ! 0),
              m_isActive := True, m_isClicking := True\<rparr>
      else st)"

definition InputHandler_handleTouchMove :: "(jsnum \<times> jsnum) list \<Rightarrow> mouseState \<Rightarrow> mouseState" where
  "InputHandler_handleTouchMove touches st =
     (if length touches > 0
      then st\<lparr>m_x := fst (touches ! 0), m_y := snd (touches ! 0)\<rparr>
      else st)"

definition InputHandler_handleTouchEnd :: "mouseState \<Rightarrow> mouseState" where
  "InputHandler_handleTouchEnd st =
     st\<lparr>m_isActive := False, m_isClicking := False, m_x := sentinel, m_y := sentinel\<rparr>"

text \<open>The events of the pointer, and the handler each one runs.\<close>

datatype inputEvent =
  MouseMove jsnum jsnum
| MouseDown
| MouseUp
| TouchStart "(jsnum \<times> jsnum) list"
| TouchMove "(jsnum \<times> jsnum) list"
| TouchEnd

fun dispatch :: "inputEvent \<Rightarrow> mouseState \<Rightarrow> mouseState" where
  "dispatch (MouseMove cx cy) st = InputHandler_handleMouseMove (cx, cy) st"
| "dispatch MouseDown st = InputHandler_handleMouseDown st"
| "dispatch MouseUp st = InputHandler_handleMouseUp st"
| "dispatch (TouchStart touches) st = InputHandler_handleTouchStart touches st"
| "dispatch (TouchMove touches) st = InputHandler_handleTouchMove touches st"
| "dispatch TouchEnd st = InputHandler_handleTouchEnd st"

text \<open>
  \<open>Vector2\<close>. The constructor stores \<open>x || 0\<close>: \<open>0\<close> for \<open>NaN\<close> and for \<open>0\<close>.
  \<open>div\<close> returns at once when \<open>s === 0\<close>, and \<open>normalize\<close> divides when
  \<open>m !== 0\<close>.
\<close>

record vec =
  v_x :: jsnum
  v_y :: jsnum

definition orZero :: "jsnum \<Rightarrow> jsnum" where
  "orZero a = (if a = NaN \<or> a = Fin 0 then Fin 0 else a)"

definition Vector2 :: "jsnum \<Rightarrow> jsnum \<Rightarrow> vec" where
  "Vector2 a b = \<lparr>v_x = orZero a, v_y = orZero b\<rparr>"

definition Vector2_add :: "vec \<Rightarrow> vec \<Rightarrow> vec" where
  "Vector2_add v w = v\<lparr>v_x := v_x v + v_x w, v_y := v_y v + v_y w\<rparr>"

definition Vector2_mult :: "vec \<Rightarrow> jsnum \<Rightarrow> vec" where
  "Vector2_mult v s = v\<lparr>v_x := v_x v * s, v_y := v_y v * s\<rparr>"

definition Vector2_div :: "vec \<Rightarrow> jsnum \<Rightarrow> vec" where
  "Vector2_div v s = (if s = Fin 0 then v else v\<lparr>v_x := v_x v / s, v_y := v_y v / s\<rparr>)"

definition Vector2_mag :: "vec \<Rightarrow> jsnum" where
  "Vector2_mag v = jsqrt (v_x v * v_x v + v_y v * v_y v)"

definition Vector2_normalize :: "vec \<Rightarrow> vec" where
  "Vector2_normalize v = (let m = Vector2_mag v in if m \<noteq> Fin 0 then Vector2_div v m else v)"

definition Vector2_dist :: "vec \<Rightarrow> vec \<Rightarrow> jsnum" where
  "Vector2_dist v w =
     (let dx = v_x v - v_x w; dy = v_y v - v_y w in jsqrt (dx * dx + dy * dy))"

definition Vector2_sub :: "vec \<Rightarrow> vec \<Rightarrow> vec" where
  "Vector2_sub v1 v2 = Vector2 (v_x v1 - v_x v2) (v_y v1 - v_y v2)"

text \<open>\<open>Math.min\<close> and \<open>Math.max\<close>: \<open>NaN\<close> when an argument is \<open>NaN\<close>.\<close>

definition jmin :: "jsnum \<Rightarrow> jsnum \<Rightarrow> jsnum" where
  "jmin a b = (if a = NaN \<or> b = NaN then NaN else if a < b then a else b)"

definition jmax :: "jsnum \<Rightarrow> jsnum \<Rightarrow> jsnum" where
  "jmax a b = (if a = NaN \<or> b = NaN then NaN else if a < b then b else a)"

text \<open>
  A node, with the fields \<open>update\<close> reads or writes (\<open>id\<close>, \<open>floatOffset\<close>,
  \<open>connections\<close>, \<open>isAnchor\<close> and \<open>layer\<close> are neither), and \<open>CONFIG.ann.mouseRadius\<close>,
  \<open>mouseForce\<close> and \<open>floatSpeed\<close>.
\<close>

record neuralNode =
  n_basePos :: vec
  n_pos :: vec
  n_vel :: vec
  n_acc :: vec
  n_radius :: jsnum
  n_baseRadius :: jsnum
  n_activation :: jsnum

definition ann_mouseRadius :: jsnum where
  "ann_mouseRadius = Fin 250"

definition ann_mouseForce :: jsnum where
  "ann_mouseForce = Fin 2"

definition ann_floatSpeed :: jsnum where
  "ann_floatSpeed = Fin 0.5"

definition NeuralNode_activate :: "jsnum \<Rightarrow> neuralNode \<Rightarrow> neuralNode" where
  "NeuralNode_activate amount n = n\<lparr>n_activation := jmin (n_activation n + amount) (Fin 1)\<rparr>"

text \<open>
  \<open>NeuralNode.update\<close> in its three parts, in the order of the source: the force toward
  the base position; the block \<open>if (STATE.mouse.isActive) { ... }\<close>, which adds the
  repulsion from the pointer to the acceleration; and the integration of velocity and
  position, with the decay of the activation.
\<close>

definition springPart :: "neuralNode \<Rightarrow> neuralNode" where
  "springPart n =
     (let targetX = v_x (n_basePos n);
          targetY = v_y (n_basePos n);
          force = Vector2 (targetX - v_x (n_pos n)) (targetY - v_y (n_pos n));
          force1 = Vector2_mult force (ann_floatSpeed * Fin 0.1)
      in n\<lparr>n_acc := Vector2_add (n_acc n) force1\<rparr>)"

definition pointerPart :: "bool \<Rightarrow> vec \<Rightarrow> neuralNode \<Rightarrow> neuralNode" where
  "pointerPart isActive mousePos n =
     (if isActive then
        (let mouseV = Vector2 (v_x mousePos) (v_y mousePos);
             dist = Vector2_dist (n_pos n) mouseV
         in if dist < ann_mouseRadius then
              (let repulsion = Vector2_normalize (Vector2_sub (n_pos n) mouseV);
                   magnitude = (ann_mouseRadius - dist) / ann_mouseRadius;
                   repulsion1 = Vector2_mult repulsion (magnitude * ann_mouseForce * Fin 5)
               in NeuralNode_activate (Fin 0.01) (n\<lparr>n_acc := Vector2_add (n_acc n) repulsion1\<rparr>))
            else n)
      else n)"

definition integratePart :: "neuralNode \<Rightarrow> neuralNode" where
  "integratePart n =
     (let vel1 = Vector2_mult (Vector2_add (n_vel n) (n_acc n)) (Fin 0.92);
          pos1 = Vector2_add (n_pos n) vel1;
          acc1 = Vector2_mult (n_acc n) (Fin 0);
          activation1 = jmax (n_activation n - Fin 0.01) (Fin 0)
      in n\<lparr>n_vel := vel1, n_pos := pos1, n_acc := acc1, n_activation := activation1,
           n_radius := n_baseRadius n + activation1 * Fin 5\<rparr>)"

definition NeuralNode_update :: "bool \<Rightarrow> vec \<Rightarrow> neuralNode \<Rightarrow> neuralNode" where
  "NeuralNode_update isActive mousePos n = integratePart (pointerPart isActive mousePos (springPart n))"

text \<open>
  The start of \<open>NeuralNetworkSystem.update\<close>: the pointer relative to the bounding
  rectangle of the canvas when it is active and inside it, \<open>(-9999, -9999)\<close> otherwise,
  passed to the \<open>update\<close> of every node. The signals, which the rest of \<open>update\<close>
  spawns and moves, do not read the pointer and are left out.
\<close>

record rect =
  r_left :: jsnum
  r_right :: jsnum
  r_top :: jsnum
  r_bottom :: jsnum

definition mouseVec :: "mouseState \<Rightarrow> rect \<Rightarrow> vec" where
  "mouseVec st rc =
     (if m_isActive st
         \<and> m_x st \<ge> r_left rc \<and> m_x st \<le> r_right rc
         \<and> m_y st \<ge> r_top rc \<and> m_y st \<le> r_bottom rc
      then Vector2 (m_x st - r_left rc) (m_y st - r_top rc)
      else Vector2 sentinel sentinel)"

definition NeuralNetworkSystem_updateNodes ::
  "bool \<Rightarrow> mouseState \<Rightarrow> rect \<Rightarrow> neuralNode list \<Rightarrow> neuralNode list" where
  "NeuralNetworkSystem_updateNodes initialized st rc nodes =
     (if \<not> initialized then nodes
      else map (NeuralNode_update (m_isActive st) (mouseVec st rc)) nodes)"

section \<open>Notions the properties are stated with\<close>

text \<open>
  A run of frames in none of which the pointer displaces the particle: in each frame the
  test \<open>distance < this.mouseRadius\<close> fails for the particle as the move and the
  boundary check left it.
\<close>

fun untouched :: "jsnum \<Rightarrow> jsnum \<Rightarrow> jsnum \<Rightarrow> (jsnum \<times> jsnum) list \<Rightarrow> particle \<Rightarrow> bool" where
  "untouched w h r [] p = True"
| "untouched w h r (m # ms) p =
     (\<not> distance (fst m) (snd m) (bounceY h (bounceX w (move p))) < r
      \<and> untouched w h r ms (updateParticle w h r (fst m) (snd m) p))"

text \<open>
  The invariant of the reflection: the velocity on each axis is the initial one or its
  opposite, and on each axis the particle is inside, or its next velocity step takes it
  back inside.
\<close>

definition rebounding :: "real \<Rightarrow> real \<Rightarrow> real \<Rightarrow> real \<Rightarrow> particle \<Rightarrow> bool" where
  "rebounding W H U V p =
     ((p_vx p = Fin U \<or> p_vx p = Fin (- U)) \<and> (p_vy p = Fin V \<or> p_vy p = Fin (- V))
      \<and> (Fin 0 \<le> p_x p \<and> p_x p \<le> Fin W
           \<or> Fin 0 \<le> p_x p + p_vx p \<and> p_x p + p_vx p \<le> Fin W)
      \<and> (Fin 0 \<le> p_y p \<and> p_y p \<le> Fin H
           \<or> Fin 0 \<le> p_y p + p_vy p \<and> p_y p + p_vy p \<le> Fin H))"

text \<open>
  An event that reports the coordinates \<open>(-9999, -9999)\<close> themselves; and the invariant
  of \<open>STATE.mouse\<close>: at \<open>(-9999, -9999)\<close> it is inactive.
\<close>

fun reportsSentinel :: "inputEvent \<Rightarrow> bool" where
  "reportsSentinel (MouseMove cx cy) = (cx = sentinel \<and> cy = sentinel)"
| "reportsSentinel (TouchStart touches) =
     (length touches > 0 \<and> fst (touches ! 0) = sentinel \<and> snd (touches ! 0) = sentinel)"
| "reportsSentinel (TouchMove touches) =
     (length touches > 0 \<and> fst (touches ! 0) = sentinel \<and> snd (touches ! 0) = sentinel)"
| "reportsSentinel _ = False"

definition inactiveAtSentinel :: "mouseState \<Rightarrow> bool" where
  "inactiveAtSentinel st = (m_x st = sentinel \<and> m_y st = sentinel \<longrightarrow> \<not> m_isActive st)"

text \<open>
  A background particle all of whose coordinates, velocities and bounds are finite, with
  bounds that are not negative; and the claimed invariant of its position.
\<close>

definition wellFormed :: "bgParticle \<Rightarrow> bool" where
  "wellFormed p =
     (isFinite (b_x p) \<and> isFinite (b_y p) \<and> isFinite (b_vx p) \<and> isFinite (b_vy p)
      \<and> isFinite (b_w p) \<and> isFinite (b_h p) \<and> Fin 0 \<le> b_w p \<and> Fin 0 \<le> b_h p)"

definition inside :: "bgParticle \<Rightarrow> bool" where
  "inside p = (Fin 0 \<le> b_x p \<and> b_x p \<le> b_w p \<and> Fin 0 \<le> b_y p \<and> b_y p \<le> b_h p)"

text \<open>The particles of a component after a call, when the call returned.\<close>

definition particlesAfter :: "error + globals \<times> neuralCanvas \<Rightarrow> particle list option" where
  "particlesAfter r = (case r of Inl e \<Rightarrow> None | Inr (g, nc) \<Rightarrow> nc_particles nc)"

text \<open>
  Concrete particles: one a quarter pixel from the left edge moving left at full speed,
  one at rest inside the canvas, one at rest in the corner \<open>(0, 0)\<close>.
\<close>

definition edgeParticle :: particle where
  "edgeParticle = \<lparr>p_x = Fin (1/4), p_y = Fin 256, p_vx = Fin (- 3/4), p_vy = Fin 0,
                    p_size = Fin 2, p_color = cyan\<rparr>"

definition midParticle :: particle where
  "midParticle = \<lparr>p_x = Fin 100, p_y = Fin 100, p_vx = Fin 0, p_vy = Fin 0,
                   p_size = Fin 2, p_color = cyan\<rparr>"

definition originParticle :: particle where
  "originParticle = \<lparr>p_x = Fin 0, p_y = Fin 0, p_vx = Fin 0, p_vy = Fin 0,
                      p_size = Fin 2, p_color = cyan\<rparr>"

text \<open>A background particle on the left edge of a 100 by 100 canvas, moving left.\<close>

definition bgEdge :: bgParticle where
  "bgEdge = \<lparr>b_w = Fin 100, b_h = Fin 100, b_x = Fin 0, b_y = Fin 50,
              b_vx = Fin (- 1/10), b_vy = Fin 0, b_size = Fin 1, b_life = Fin 0\<rparr>"

text \<open>
  A page of 1024 by 512 pixels whose pointer is inactive, and a component on it with
  given particles.
\<close>

definition idleGlobals :: globals where
  "idleGlobals = \<lparr>g_innerWidth = Fin 1024, g_innerHeight = Fin 512, g_hasCanvas = True,
     g_particleCount = 60, g_reducedMotion = False, g_mouseX = sentinel, g_mouseY = sentinel,
     g_random = (\<lambda>i. 1/2), g_used = 0, g_listeners = [], g_frameRequests = 0,
     g_canvasOps = []\<rparr>"

definition canvasWith :: "particle list \<Rightarrow> neuralCanvas" where
  "canvasWith ps = \<lparr>nc_canvas = True, nc_ctx = True, nc_particles = Some ps,
     nc_width = Fin 1024, nc_height = Fin 512, nc_mouseRadius = Fin 150\<rparr>"

text \<open>
  A node 9 pixels from \<open>(-9999, -9999)\<close> on each axis, and the bounding rectangle of
  a canvas of 1024 by 512 pixels.
\<close>

definition strayNode :: neuralNode where
  "strayNode = \<lparr>n_basePos = \<lparr>v_x = Fin 100, v_y = Fin 100\<rparr>,
                 n_pos = \<lparr>v_x = Fin (- 9990), v_y = Fin (- 9990)\<rparr>,
                 n_vel = \<lparr>v_x = Fin 0, v_y = Fin 0\<rparr>,
                 n_acc = \<lparr>v_x = Fin 0, v_y = Fin 0\<rparr>,
                 n_radius = Fin 8, n_baseRadius = Fin 8, n_activation = Fin 0\<rparr>"

definition canvasRect :: rect where
  "canvasRect = \<lparr>r_left = Fin 0, r_right = Fin 1024, r_top = Fin 0, r_bottom = Fin 512\<rparr>"

section \<open>Arithmetic of the model\<close>

lemma sumsq_nonneg: "\<not> (a * a + b * b < (0::real))"
  by (simp add: not_less)

lemma sqrt_sumsq_zero: "sqrt (a * a + b * b) = 0 \<longleftrightarrow> a = 0 \<and> b = (0::real)"
  by (simp add: add_nonneg_eq_0_iff)

lemma mouseInteraction_Fin:
  assumes "p_x p = Fin x" "p_y p = Fin y"
  shows "mouseInteraction (Fin r) (Fin a) (Fin b) p =
     (if sqrt ((a - x) * (a - x) + (b - y) * (b - y)) < r then
        (if a = x \<and> b = y then p\<lparr>p_x := NaN, p_y := NaN\<rparr>
         else p\<lparr>p_x := Fin (x - (a - x) / sqrt ((a - x) * (a - x) + (b - y) * (b - y))
                                * ((r - sqrt ((a - x) * (a - x) + (b - y) * (b - y))) / r) * 2),
                 p_y := Fin (y - (b - y) / sqrt ((a - x) * (a - x) + (b - y) * (b - y))
                                * ((r - sqrt ((a - x) * (a - x) + (b - y) * (b - y))) / r) * 2)\<rparr>)
      else p)"
proof -
  have nn: "0 \<le> sqrt ((a - x) * (a - x) + (b - y) * (b - y))" by simp
  show ?thesis
    using assms nn
    by (auto simp add: mouseInteraction_def Let_def sumsq_nonneg sqrt_sumsq_zero add_nonneg_eq_0_iff)
qed

lemma sqrt_less_iff: "0 \<le> r \<Longrightarrow> sqrt a < r \<longleftrightarrow> a < r * r"
  by (metis abs_of_nonneg real_sqrt_abs2 real_sqrt_less_iff)

lemma jsnum_le_Fin: "Fin a \<le> v \<Longrightarrow> v \<le> Fin b \<Longrightarrow> \<exists>r. v = Fin r \<and> a \<le> r \<and> r \<le> b"
  by (cases v) (auto simp add: less_eq_jsnum_def)

lemma Fin_le_iff: "Fin a \<le> Fin b \<longleftrightarrow> a \<le> b"
  by (auto simp add: less_eq_jsnum_def)

lemma le_jsnum_simps:
  "Fin a \<le> Fin b \<longleftrightarrow> a \<le> b"
  "\<not> PInf \<le> Fin b" "\<not> Fin a \<le> NInf" "\<not> Fin a \<le> NaN" "\<not> NaN \<le> v"
  by (auto simp add: less_eq_jsnum_def)

lemma move_bounce_Fin:
  assumes "p_x p = Fin x" "p_y p = Fin y" "p_vx p = Fin u" "p_vy p = Fin v"
  shows "bounceY (Fin H) (bounceX (Fin W) (move p)) =
     p\<lparr>p_x := Fin (x + u), p_y := Fin (y + v),
       p_vx := Fin (if x + u < 0 \<or> W < x + u then - u else u),
       p_vy := Fin (if y + v < 0 \<or> H < y + v then - v else v)\<rparr>"
  using assms by (simp add: move_def bounceX_def bounceY_def)

lemma unit_scale:
  fixes r W :: real
  assumes "0 \<le> r" "r < 1" "0 \<le> W"
  shows "0 \<le> r * W" "r * W \<le> W"
proof -
  show "0 \<le> r * W" using assms by simp
  have "r * W \<le> 1 * W" using assms by (intro mult_right_mono) auto
  then show "r * W \<le> W" by simp
qed

section \<open>The reflection at the boundary\<close>

lemma mouseInteraction_untouched:
  "\<not> distance mx my q < r \<Longrightarrow> mouseInteraction r mx my q = q"
  by (simp add: mouseInteraction_def distance_def Let_def)


lemma rebounding_iff:
  "rebounding W H U V p \<longleftrightarrow>
     (\<exists>x y u v. p_x p = Fin x \<and> p_y p = Fin y \<and> p_vx p = Fin u \<and> p_vy p = Fin v
        \<and> (u = U \<or> u = - U) \<and> (v = V \<or> v = - V)
        \<and> (0 \<le> x \<and> x \<le> W \<or> 0 \<le> x + u \<and> x + u \<le> W)
        \<and> (0 \<le> y \<and> y \<le> H \<or> 0 \<le> y + v \<and> y + v \<le> H))"
proof
  assume r: "rebounding W H U V p"
  then obtain u where u: "p_vx p = Fin u" "u = U \<or> u = - U"
    unfolding rebounding_def by blast
  from r obtain v where v: "p_vy p = Fin v" "v = V \<or> v = - V"
    unfolding rebounding_def by blast
  from r have "Fin 0 \<le> p_x p \<and> p_x p \<le> Fin W
           \<or> Fin 0 \<le> p_x p + Fin u \<and> p_x p + Fin u \<le> Fin W"
    by (simp add: rebounding_def u(1))
  then obtain x where x: "p_x p = Fin x" "0 \<le> x \<and> x \<le> W \<or> 0 \<le> x + u \<and> x + u \<le> W"
    by (cases "p_x p") (simp_all add: le_jsnum_simps)
  from r have "Fin 0 \<le> p_y p \<and> p_y p \<le> Fin H
           \<or> Fin 0 \<le> p_y p + Fin v \<and> p_y p + Fin v \<le> Fin H"
    by (simp add: rebounding_def v(1))
  then obtain y where y: "p_y p = Fin y" "0 \<le> y \<and> y \<le> H \<or> 0 \<le> y + v \<and> y + v \<le> H"
    by (cases "p_y p") (simp_all add: le_jsnum_simps)
  from x y u v show "\<exists>x y u v. p_x p = Fin x \<and> p_y p = Fin y \<and> p_vx p = Fin u \<and> p_vy p = Fin v
        \<and> (u = U \<or> u = - U) \<and> (v = V \<or> v = - V)
        \<and> (0 \<le> x \<and> x \<le> W \<or> 0 \<le> x + u \<and> x + u \<le> W)
        \<and> (0 \<le> y \<and> y \<le> H \<or> 0 \<le> y + v \<and> y + v \<le> H)"
    by blast
next
  assume "\<exists>x y u v. p_x p = Fin x \<and> p_y p = Fin y \<and> p_vx p = Fin u \<and> p_vy p = Fin v
        \<and> (u = U \<or> u = - U) \<and> (v = V \<or> v = - V)
        \<and> (0 \<le> x \<and> x \<le> W \<or> 0 \<le> x + u \<and> x + u \<le> W)
        \<and> (0 \<le> y \<and> y \<le> H \<or> 0 \<le> y + v \<and> y + v \<le> H)"
  then obtain x y u v where f: "p_x p = Fin x" "p_y p = Fin y" "p_vx p = Fin u" "p_vy p = Fin v"
    and s: "u = U \<or> u = - U" "v = V \<or> v = - V"
    and ix: "0 \<le> x \<and> x \<le> W \<or> 0 \<le> x + u \<and> x + u \<le> W"
    and iy: "0 \<le> y \<and> y \<le> H \<or> 0 \<le> y + v \<and> y + v \<le> H"
    by blast
  from s ix iy show "rebounding W H U V p"
    by (simp add: rebounding_def f le_jsnum_simps)
qed

lemma rebounding_start:
  assumes "inBounds (Fin W) (Fin H) p" "p_vx p = Fin u" "p_vy p = Fin v"
  shows "rebounding W H u v p"
proof -
  from assms(1) obtain x y where "p_x p = Fin x" "0 \<le> x" "x \<le> W" "p_y p = Fin y" "0 \<le> y" "y \<le> H"
    unfolding inBounds_def using jsnum_le_Fin by blast
  then show ?thesis
    unfolding rebounding_iff using assms(2,3) by blast
qed

lemma rebounding_step:
  assumes "rebounding W H U V p"
    and "\<not> distance mx my (bounceY (Fin H) (bounceX (Fin W) (move p))) < r"
  shows "rebounding W H U V (updateParticle (Fin W) (Fin H) r mx my p)"
proof -
  from assms(1) obtain x y u v where f: "p_x p = Fin x" "p_y p = Fin y" "p_vx p = Fin u" "p_vy p = Fin v"
    and s: "u = U \<or> u = - U" "v = V \<or> v = - V"
    and ix: "0 \<le> x \<and> x \<le> W \<or> 0 \<le> x + u \<and> x + u \<le> W"
    and iy: "0 \<le> y \<and> y \<le> H \<or> 0 \<le> y + v \<and> y + v \<le> H"
    unfolding rebounding_iff by blast
  define u' where "u' = (if x + u < 0 \<or> W < x + u then - u else u)"
  define v' where "v' = (if y + v < 0 \<or> H < y + v then - v else v)"
  let ?q = "bounceY (Fin H) (bounceX (Fin W) (move p))"
  have q: "?q = p\<lparr>p_x := Fin (x + u), p_y := Fin (y + v), p_vx := Fin u', p_vy := Fin v'\<rparr>"
    unfolding u'_def v'_def by (rule move_bounce_Fin [OF f])
  have upd: "updateParticle (Fin W) (Fin H) r mx my p = ?q"
    unfolding updateParticle_def using assms(2) by (rule mouseInteraction_untouched)
  have g: "p_x ?q = Fin (x + u)" "p_y ?q = Fin (y + v)" "p_vx ?q = Fin u'" "p_vy ?q = Fin v'"
    by (simp_all add: q)
  have c: "u' = U \<or> u' = - U" "v' = V \<or> v' = - V"
    using s by (auto simp: u'_def v'_def)
  have cx: "0 \<le> x + u \<and> x + u \<le> W \<or> 0 \<le> x + u + u' \<and> x + u + u' \<le> W"
    using ix by (auto simp: u'_def)
  have cy: "0 \<le> y + v \<and> y + v \<le> H \<or> 0 \<le> y + v + v' \<and> y + v + v' \<le> H"
    using iy by (auto simp: v'_def)
  show ?thesis
    unfolding upd rebounding_iff using g c cx cy by blast
qed

lemma rebounding_frames:
  "rebounding W H U V p \<Longrightarrow> untouched (Fin W) (Fin H) r ms p \<Longrightarrow>
   rebounding W H U V (frames (Fin W) (Fin H) r ms p)"
proof (induction ms arbitrary: p)
  case Nil
  then show ?case by (simp add: frames_def)
next
  case (Cons m ms)
  from Cons.prems(2)
  have a: "\<not> distance (fst m) (snd m) (bounceY (Fin H) (bounceX (Fin W) (move p))) < r"
    and b: "untouched (Fin W) (Fin H) r ms (updateParticle (Fin W) (Fin H) r (fst m) (snd m) p)"
    by simp_all
  have "rebounding W H U V (updateParticle (Fin W) (Fin H) r (fst m) (snd m) p)"
    using Cons.prems(1) a by (rule rebounding_step)
  from Cons.IH [OF this b] show ?case by (simp add: frames_def)
qed

lemma rebounding_near:
  assumes "rebounding W H U V p"
  shows "Fin (- \<bar>U\<bar>) \<le> p_x p \<and> p_x p \<le> Fin (W + \<bar>U\<bar>)
       \<and> Fin (- \<bar>V\<bar>) \<le> p_y p \<and> p_y p \<le> Fin (H + \<bar>V\<bar>)"
proof -
  from assms obtain x y u v where f: "p_x p = Fin x" "p_y p = Fin y" "p_vx p = Fin u" "p_vy p = Fin v"
    and s: "u = U \<or> u = - U" "v = V \<or> v = - V"
    and ix: "0 \<le> x \<and> x \<le> W \<or> 0 \<le> x + u \<and> x + u \<le> W"
    and iy: "0 \<le> y \<and> y \<le> H \<or> 0 \<le> y + v \<and> y + v \<le> H"
    unfolding rebounding_iff by blast
  have "- \<bar>U\<bar> \<le> x" "x \<le> W + \<bar>U\<bar>" using s(1) ix by (auto simp: abs_if)
  moreover have "- \<bar>V\<bar> \<le> y" "y \<le> H + \<bar>V\<bar>" using s(2) iy by (auto simp: abs_if)
  ultimately show ?thesis by (simp add: f le_jsnum_simps)
qed

lemma newParticle_start:
  assumes "0 \<le> W" "0 \<le> H" "\<forall>i. 0 \<le> rnd i \<and> rnd i < 1"
  shows "inBounds (Fin W) (Fin H) (newParticle rnd k (Fin W) (Fin H) i)
       \<and> Fin (- 3/4) \<le> p_vx (newParticle rnd k (Fin W) (Fin H) i)
       \<and> p_vx (newParticle rnd k (Fin W) (Fin H) i) \<le> Fin (3/4)
       \<and> Fin (- 3/4) \<le> p_vy (newParticle rnd k (Fin W) (Fin H) i)
       \<and> p_vy (newParticle rnd k (Fin W) (Fin H) i) \<le> Fin (3/4)"
proof -
  have r: "0 \<le> rnd (k + 5 * i)" "rnd (k + 5 * i) < 1"
    "0 \<le> rnd (k + 5 * i + 1)" "rnd (k + 5 * i + 1) < 1"
    "0 \<le> rnd (k + 5 * i + 2)" "rnd (k + 5 * i + 2) < 1"
    "0 \<le> rnd (k + 5 * i + 3)" "rnd (k + 5 * i + 3) < 1"
    using assms(3) by auto
  note s = unit_scale [OF r(1,2) assms(1)] unit_scale [OF r(3,4) assms(2)]
  show ?thesis
    using s r(5-8) by (simp add: newParticle_def inBounds_def le_jsnum_simps)
qed

text \<open>
  Claim C1, as amended. A particle that starts inside \<open>[0, W] \<times> [0, H]\<close> with the finite
  velocity \<open>(u, v)\<close> stays, over any number of frames in none of which the pointer
  displaces it, within one velocity step of the bounds: \<open>x\<close> in \<open>[-|u|, W + |u|]\<close> and
  \<open>y\<close> in \<open>[-|v|, H + |v|]\<close>. The boundary check flips the velocity and does not clamp
  the position. (By \<open>newParticle_start\<close> the particles of \<open>createParticles\<close> start
  inside, with \<open>|u|\<close> and \<open>|v|\<close> at most \<open>0.75\<close>, on a canvas of finite size.)
\<close>

theorem C1_near_bounds:
  assumes "inBounds (Fin W) (Fin H) p" "p_vx p = Fin u" "p_vy p = Fin v"
    and "untouched (Fin W) (Fin H) mouseRadius ms p"
  shows "Fin (- \<bar>u\<bar>) \<le> p_x (frames (Fin W) (Fin H) mouseRadius ms p)
       \<and> p_x (frames (Fin W) (Fin H) mouseRadius ms p) \<le> Fin (W + \<bar>u\<bar>)
       \<and> Fin (- \<bar>v\<bar>) \<le> p_y (frames (Fin W) (Fin H) mouseRadius ms p)
       \<and> p_y (frames (Fin W) (Fin H) mouseRadius ms p) \<le> Fin (H + \<bar>v\<bar>)"
proof -
  have "rebounding W H u v p"
    using assms(1-3) by (rule rebounding_start)
  then have "rebounding W H u v (frames (Fin W) (Fin H) mouseRadius ms p)"
    using assms(4) by (rule rebounding_frames)
  then show ?thesis
    by (rule rebounding_near)
qed

lemma sqrt_5625: "sqrt 5625 = 75"
  by (rule real_sqrt_unique) simp_all

text \<open>
  Claim C1 as stated fails in the first frame after start-up (\<open>STATE.mouseX\<close> and
  \<open>STATE.mouseY\<close> are still \<open>0\<close>): a particle a quarter pixel from the left edge that
  moves left by \<open>0.75\<close> is drawn at \<open>x = -0.5\<close>, outside \<open>[0, 1024]\<close>. And a pointer
  75 pixels to its right pushes it further than one velocity step, to \<open>x = -1.5\<close>.
\<close>

theorem C1_counterexample:
  "inBounds (Fin 1024) (Fin 512) edgeParticle
   \<and> frames (Fin 1024) (Fin 512) mouseRadius [(Fin 0, Fin 0)] edgeParticle
       = edgeParticle\<lparr>p_x := Fin (- 1/2), p_vx := Fin (3/4)\<rparr>
   \<and> \<not> inBounds (Fin 1024) (Fin 512)
         (frames (Fin 1024) (Fin 512) mouseRadius [(Fin 0, Fin 0)] edgeParticle)
   \<and> frames (Fin 1024) (Fin 512) mouseRadius [(Fin (149/2), Fin 256)] edgeParticle
       = edgeParticle\<lparr>p_x := Fin (- 3/2), p_vx := Fin (3/4)\<rparr>"
  by (simp add: frames_def edgeParticle_def inBounds_def le_jsnum_simps updateParticle_def
      move_def bounceX_def bounceY_def mouseRadius_def mouseInteraction_def Let_def
      sqrt_less_iff sqrt_5625)

lemma untouched_start_up:
  "untouched (Fin 1024) (Fin 512) mouseRadius [(Fin 0, Fin 0), (Fin 0, Fin 0)] edgeParticle"
  by (simp add: edgeParticle_def distance_def updateParticle_def move_def bounceX_def
      bounceY_def mouseRadius_def mouseInteraction_def Let_def sqrt_less_iff)

text \<open>
  The hypotheses of the amended claim C1 hold for that particle and the first two frames
  after start-up, with the pointer at \<open>(0, 0)\<close>.
\<close>

theorem C1_near_bounds_witness:
  "inBounds (Fin 1024) (Fin 512) edgeParticle
   \<and> p_vx edgeParticle = Fin (- 3/4) \<and> p_vy edgeParticle = Fin 0
   \<and> untouched (Fin 1024) (Fin 512) mouseRadius [(Fin 0, Fin 0), (Fin 0, Fin 0)] edgeParticle
   \<and> Fin (- 3/4) \<le> p_x (frames (Fin 1024) (Fin 512) mouseRadius
                          [(Fin 0, Fin 0), (Fin 0, Fin 0)] edgeParticle)
   \<and> p_x (frames (Fin 1024) (Fin 512) mouseRadius
            [(Fin 0, Fin 0), (Fin 0, Fin 0)] edgeParticle) \<le> Fin (1024 + 3/4)"
proof -
  have h: "inBounds (Fin 1024) (Fin 512) edgeParticle"
    "p_vx edgeParticle = Fin (- 3/4)" "p_vy edgeParticle = Fin 0"
    by (simp_all add: edgeParticle_def inBounds_def le_jsnum_simps)
  from C1_near_bounds [OF h untouched_start_up] h untouched_start_up
  show ?thesis by simp
qed




section \<open>The mouse interaction\<close>

lemma distance_Fin:
  "p_x p = Fin x \<Longrightarrow> p_y p = Fin y \<Longrightarrow>
   distance (Fin a) (Fin b) p = Fin (sqrt ((a - x) * (a - x) + (b - y) * (b - y)))"
  by (simp add: distance_def Let_def sumsq_nonneg)

lemma displacement_value:
  assumes "p_x p = Fin x" "p_y p = Fin y"
    and "d = sqrt ((a - x) * (a - x) + (b - y) * (b - y))"
  shows "displacement (Fin 150) (Fin a) (Fin b) p =
     (if d < 150 then (if d = 0 then NaN else Fin (2 * (150 - d) / 150)) else Fin 0)"
proof (cases "d < 150")
  case False
  then show ?thesis
    using assms by (simp add: displacement_def mouseInteraction_Fin Let_def)
next
  case near: True
  show ?thesis
  proof (cases "d = 0")
    case True
    then have "a = x \<and> b = y" using assms(3) by (simp add: sqrt_sumsq_zero)
    then show ?thesis
      using assms near True by (simp add: displacement_def mouseInteraction_Fin Let_def)
  next
    case False
    have d0: "0 < d" using False assms(3) by (metis less_eq_real_def real_sqrt_ge_zero sumsq_nonneg not_less)
    have ne: "\<not> (a = x \<and> b = y)" using False assms(3) by auto
    define k where "k = (150 - d) / 150 * 2 / d"
    have k0: "0 \<le> k" using d0 near by (simp add: k_def)
    have ex: "x - (a - x) / d * ((150 - d) / 150) * 2 - x = - (k * (a - x))"
      using d0 by (simp add: k_def field_simps)
    have ey: "y - (b - y) / d * ((150 - d) / 150) * 2 - y = - (k * (b - y))"
      using d0 by (simp add: k_def field_simps)
    have sq: "(- (k * (a - x))) * (- (k * (a - x))) + (- (k * (b - y))) * (- (k * (b - y)))
            = (k * d) * (k * d)"
    proof -
      have "d * d = (a - x) * (a - x) + (b - y) * (b - y)"
        using assms(3) by (metis abs_of_nonneg add_nonneg_nonneg real_sqrt_mult_self zero_le_square)
      moreover have "(- (k * (a - x))) * (- (k * (a - x))) + (- (k * (b - y))) * (- (k * (b - y)))
          = k * k * ((a - x) * (a - x) + (b - y) * (b - y))"
        by (simp add: algebra_simps)
      ultimately have "(- (k * (a - x))) * (- (k * (a - x))) + (- (k * (b - y))) * (- (k * (b - y)))
          = k * k * (d * d)"
        by simp
      then show ?thesis by (simp add: mult_ac)
    qed
    have kd0: "0 \<le> k * d" using k0 d0 by simp
    have "sqrt ((k * d) * (k * d)) = k * d"
      using kd0 by (metis abs_of_nonneg real_sqrt_abs2)
    moreover have "k * d = 2 * (150 - d) / 150" using d0 by (simp add: k_def)
    ultimately have mag: "sqrt ((- (k * (a - x))) * (- (k * (a - x))) + (- (k * (b - y))) * (- (k * (b - y))))
        = 2 * (150 - d) / 150"
      by (simp only: sq)
    define X where "X = x - (a - x) / d * ((150 - d) / 150) * 2"
    define Y where "Y = y - (b - y) / d * ((150 - d) / 150) * 2"
    have q: "mouseInteraction (Fin 150) (Fin a) (Fin b) p = p\<lparr>p_x := Fin X, p_y := Fin Y\<rparr>"
      using assms near ne by (simp add: mouseInteraction_Fin X_def Y_def)
    have "displacement (Fin 150) (Fin a) (Fin b) p
        = Fin (sqrt ((X - x) * (X - x) + (Y - y) * (Y - y)))"
      unfolding displacement_def q Let_def using assms(1,2) by (simp add: sumsq_nonneg)
    also have "X - x = - (k * (a - x))" unfolding X_def by (rule ex)
    also have "Y - y = - (k * (b - y))" unfolding Y_def by (rule ey)
    finally show ?thesis
      using near False by (simp only: mag if_True if_False)
  qed
qed

lemma sqrt_14400: "sqrt 14400 = 120"
  by (rule real_sqrt_unique) simp_all

text \<open>
  Claim C3, as amended. With \<open>d\<close> the distance from the particle to the pointer: at
  \<open>d \<ge> 150\<close> the particle is not displaced (magnitude 0); at \<open>0 < d < 150\<close> the
  magnitude of the displacement is \<open>2 (150 - d) / 150\<close>; so below the radius the
  magnitude strictly increases as the distance shrinks, a nearer pointer pushing harder.
\<close>

theorem C3_displacement:
  assumes "p_x p = Fin x" "p_y p = Fin y" "distance (Fin a) (Fin b) p = Fin d"
    and "p_x p' = Fin x'" "p_y p' = Fin y'" "distance (Fin a') (Fin b') p' = Fin d'"
  shows "(150 \<le> d \<longrightarrow> mouseInteraction mouseRadius (Fin a) (Fin b) p = p
                      \<and> displacement mouseRadius (Fin a) (Fin b) p = Fin 0)
       \<and> (0 < d \<and> d < 150 \<longrightarrow>
            displacement mouseRadius (Fin a) (Fin b) p = Fin (2 * (150 - d) / 150))
       \<and> (0 < d \<and> d < d' \<and> d' < 150 \<longrightarrow>
            displacement mouseRadius (Fin a') (Fin b') p'
              < displacement mouseRadius (Fin a) (Fin b) p)"
proof -
  have d: "d = sqrt ((a - x) * (a - x) + (b - y) * (b - y))"
    using assms(3) by (simp add: distance_Fin [OF assms(1,2)])
  have d': "d' = sqrt ((a' - x') * (a' - x') + (b' - y') * (b' - y'))"
    using assms(6) by (simp add: distance_Fin [OF assms(4,5)])
  have v: "displacement mouseRadius (Fin a) (Fin b) p =
     (if d < 150 then (if d = 0 then NaN else Fin (2 * (150 - d) / 150)) else Fin 0)"
    unfolding mouseRadius_def by (rule displacement_value [OF assms(1,2) d])
  have v': "displacement mouseRadius (Fin a') (Fin b') p' =
     (if d' < 150 then (if d' = 0 then NaN else Fin (2 * (150 - d') / 150)) else Fin 0)"
    unfolding mouseRadius_def by (rule displacement_value [OF assms(4,5) d'])
  have same: "150 \<le> d \<Longrightarrow> mouseInteraction mouseRadius (Fin a) (Fin b) p = p"
    using d by (simp add: mouseRadius_def mouseInteraction_Fin [OF assms(1,2)])
  show ?thesis
    using same by (auto simp: v v')
qed

text \<open>The amended claim C3 at distances 75, 120 and 150.\<close>

theorem C3_displacement_witness:
  "distance (Fin 175) (Fin 100) midParticle = Fin 75
   \<and> distance (Fin 220) (Fin 100) midParticle = Fin 120
   \<and> distance (Fin 250) (Fin 100) midParticle = Fin 150
   \<and> displacement mouseRadius (Fin 250) (Fin 100) midParticle = Fin 0
   \<and> displacement mouseRadius (Fin 175) (Fin 100) midParticle = Fin 1
   \<and> displacement mouseRadius (Fin 220) (Fin 100) midParticle
       < displacement mouseRadius (Fin 175) (Fin 100) midParticle"
proof -
  have f: "p_x midParticle = Fin 100" "p_y midParticle = Fin 100"
    by (simp_all add: midParticle_def)
  have d1: "distance (Fin 175) (Fin 100) midParticle = Fin 75"
    by (simp add: distance_Fin [OF f] sqrt_5625)
  have d2: "distance (Fin 220) (Fin 100) midParticle = Fin 120"
    by (simp add: distance_Fin [OF f] sqrt_14400)
  have d3: "distance (Fin 250) (Fin 100) midParticle = Fin 150"
    by (simp add: distance_Fin [OF f])
  from C3_displacement [OF f d1 f d2] C3_displacement [OF f d3 f d3] d1 d2 d3
  show ?thesis by auto
qed

text \<open>
  Claim C3 as stated, with a magnitude that decreases as the distance shrinks, fails:
  when the distance shrinks from 120 to 75 the magnitude grows from \<open>0.4\<close> to \<open>1\<close>.
\<close>

theorem C3_counterexample:
  "distance (Fin 220) (Fin 100) midParticle = Fin 120
   \<and> distance (Fin 175) (Fin 100) midParticle = Fin 75
   \<and> displacement mouseRadius (Fin 220) (Fin 100) midParticle = Fin (2/5)
   \<and> displacement mouseRadius (Fin 175) (Fin 100) midParticle = Fin 1
   \<and> \<not> displacement mouseRadius (Fin 175) (Fin 100) midParticle
         < displacement mouseRadius (Fin 220) (Fin 100) midParticle"
proof -
  have f: "p_x midParticle = Fin 100" "p_y midParticle = Fin 100"
    by (simp_all add: midParticle_def)
  have "displacement mouseRadius (Fin 220) (Fin 100) midParticle = Fin (2/5)"
    unfolding mouseRadius_def by (simp add: displacement_value [OF f refl] sqrt_14400)
  moreover have "displacement mouseRadius (Fin 175) (Fin 100) midParticle = Fin 1"
    unfolding mouseRadius_def by (simp add: displacement_value [OF f refl] sqrt_5625)
  ultimately show ?thesis
    by (simp add: distance_Fin [OF f] sqrt_5625 sqrt_14400)
qed

section \<open>The mouse interaction near a coincident pointer\<close>

lemma mulU_exact:
  "\<not> (0 < \<bar>a * b\<bar> \<and> \<bar>a * b\<bar> \<le> underflow) \<Longrightarrow> mulU (Fin a) (Fin b) = Fin a * Fin b"
  by auto

lemma underflow_pos: "0 < underflow"
  by (simp add: underflow_def)









text \<open>
  What the claim leaves open: the computed distance is also 0 when the pointer is not on
  the particle but so near that both squares underflow, and then a coordinate on which
  they differ becomes infinite. Particle at \<open>(0, 0)\<close>, pointer at \<open>(1 / 2 ^ 600, 0)\<close>.
\<close>

lemma small_square: "\<bar>(1 / 2 ^ 600) * (1 / 2 ^ 600)\<bar> \<le> underflow"
proof -
  have "(1 / 2 ^ 600) * (1 / 2 ^ 600) = (1 / 2 ^ 1200 :: real)"
    by (simp add: power_add [symmetric])
  moreover have "(1 / 2 ^ 1200 :: real) \<le> 1 / 2 ^ 1075"
    by (intro divide_left_mono power_increasing) simp_all
  ultimately show ?thesis by (simp add: underflow_def del: power_increasing_iff)
qed

lemma near_coincidence:
  "distanceU (Fin (1 / 2 ^ 600)) (Fin 0) originParticle = Fin 0
   \<and> mouseInteractionU mouseRadius (Fin (1 / 2 ^ 600)) (Fin 0) originParticle
       = originParticle\<lparr>p_x := NInf, p_y := NaN\<rparr>"
  using small_square underflow_pos
  by (simp add: distanceU_def mouseInteractionU_def Let_def originParticle_def mouseRadius_def)

section \<open>The frame\<close>

lemma NeuralCanvas_draw_particles:
  "nc_ctx nc \<Longrightarrow> nc_particles nc = Some ps \<Longrightarrow>
   particlesAfter (NeuralCanvas_draw g nc)
     = Some (map (updateParticle (nc_width nc) (nc_height nc) (nc_mouseRadius nc)
                    (g_mouseX g) (g_mouseY g)) ps)"
  by (simp add: NeuralCanvas_draw_def particlesAfter_def Let_def)

section \<open>The connection pass\<close>

lemma connections_iff:
  "(a, b, opacity) \<in> set (connections maxDist ps) \<longleftrightarrow>
     a \<le> b \<and> b < length ps \<and> pairDist (ps ! a) (ps ! b) < maxDist
     \<and> opacity = Fin 1 - pairDist (ps ! a) (ps ! b) / maxDist"
  by (auto simp add: connections_def Let_def split: if_splits)

lemma bgConnections_iff:
  "(a, b, alpha) \<in> set (bgConnections maxDist ps i) \<longleftrightarrow>
     a = i \<and> i < b \<and> b < length ps \<and> bgPairDist (ps ! i) (ps ! b) < maxDist
     \<and> alpha = Fin 0.15 * (Fin 1 - bgPairDist (ps ! i) (ps ! b) / maxDist)"
  by (auto simp add: bgConnections_def Let_def split: if_splits)

lemma jsqrt_less_Fin:
  "jsqrt v < Fin M \<Longrightarrow> \<exists>d. jsqrt v = Fin d \<and> 0 \<le> d \<and> d < M"
  by (cases v) (auto split: if_splits)

text \<open>
  Claim C2 fails on \<open>NeuralCanvas.connectParticles\<close>: the inner loop starts at \<open>b = a\<close>,
  so each particle is paired with itself, at distance 0, and a line from the particle to
  itself is stroked. With a single particle there is no pair of distinct particles, and
  one line is drawn; with two particles exactly 150 apart, the threshold, the lines drawn
  are those two of each particle to itself and none between them. (By \<open>bgConnections_iff\<close>, \<open>BackgroundSystem.draw\<close>, whose inner
  loop starts at \<open>i + 1\<close>, draws a line exactly for the pairs \<open>i < j\<close> at a distance
  below the threshold.)
\<close>

theorem C2_self_pair:
  "connections connectionRadius [midParticle] = [(0, 0, Fin 1)]
   \<and> connectParticles connectionRadius [midParticle]
       = [StrokeLine (Fin (1/5)) (Fin 1) (Fin 100) (Fin 100) (Fin 100) (Fin 100)]
   \<and> pairDist midParticle (midParticle\<lparr>p_x := Fin 250\<rparr>) = connectionRadius
   \<and> connections connectionRadius [midParticle, midParticle\<lparr>p_x := Fin 250\<rparr>]
       = [(0, 0, Fin 1), (1, 1, Fin 1)]"
  by (simp add: connectParticles_def connections_def connectionRadius_def pairDist_def
      midParticle_def Let_def upt_rec)

text \<open>
  Claim C5, as amended. The lines \<open>NeuralCanvas.connectParticles\<close> strokes are exactly
  these: for each pair \<open>a \<le> b\<close> at a distance \<open>d\<close> below the threshold \<open>M\<close>, the line
  from particle \<open>a\<close> to particle \<open>b\<close>, of width 1 and alpha \<open>0.2 (1 - d / M)\<close>. The
  lines of \<open>BackgroundSystem.draw\<close> for the particle \<open>i\<close> are exactly those to the
  particles \<open>j > i\<close> at a distance \<open>d\<close> below the threshold, each with the alpha
  \<open>0.15 (1 - d / M)\<close>. So the alpha of a line is linear in the distance of its own pair,
  at its maximum (\<open>0.2\<close>, \<open>0.15\<close>) at distance 0 and tending to 0 at the threshold.
\<close>

theorem C5_line_alpha:
  "(StrokeLine alpha lw x1 y1 x2 y2 \<in> set (connectParticles (Fin M) ps) \<longleftrightarrow>
      (\<exists>a b d. a \<le> b \<and> b < length ps \<and> pairDist (ps ! a) (ps ! b) = Fin d
         \<and> 0 \<le> d \<and> d < M
         \<and> x1 = p_x (ps ! a) \<and> y1 = p_y (ps ! a) \<and> x2 = p_x (ps ! b) \<and> y2 = p_y (ps ! b)
         \<and> lw = Fin 1 \<and> alpha = Fin (0.2 * (1 - d / M))))
   \<and> ((i, j, beta) \<in> set (bgConnections (Fin M) qs i) \<longleftrightarrow>
      (\<exists>d. i < j \<and> j < length qs \<and> bgPairDist (qs ! i) (qs ! j) = Fin d
         \<and> 0 \<le> d \<and> d < M \<and> beta = Fin (0.15 * (1 - d / M))))"
proof (intro conjI iffI)
  assume "StrokeLine alpha lw x1 y1 x2 y2 \<in> set (connectParticles (Fin M) ps)"
  then obtain a b opacity where m: "(a, b, opacity) \<in> set (connections (Fin M) ps)"
    and al: "alpha = opacity * Fin 0.2" and lw: "lw = Fin 1"
    and xy: "x1 = p_x (ps ! a)" "y1 = p_y (ps ! a)" "x2 = p_x (ps ! b)" "y2 = p_y (ps ! b)"
    by (auto simp add: connectParticles_def)
  from m have ab: "a \<le> b" "b < length ps" and lt: "pairDist (ps ! a) (ps ! b) < Fin M"
    and op: "opacity = Fin 1 - pairDist (ps ! a) (ps ! b) / Fin M"
    by (simp_all add: connections_iff)
  from lt obtain d where d: "pairDist (ps ! a) (ps ! b) = Fin d" "0 \<le> d" "d < M"
    unfolding pairDist_def Let_def using jsqrt_less_Fin by blast
  have "alpha = Fin (0.2 * (1 - d / M))"
    using d by (simp add: al op)
  with ab d xy lw show "\<exists>a b d. a \<le> b \<and> b < length ps \<and> pairDist (ps ! a) (ps ! b) = Fin d
         \<and> 0 \<le> d \<and> d < M
         \<and> x1 = p_x (ps ! a) \<and> y1 = p_y (ps ! a) \<and> x2 = p_x (ps ! b) \<and> y2 = p_y (ps ! b)
         \<and> lw = Fin 1 \<and> alpha = Fin (0.2 * (1 - d / M))"
    by blast
next
  assume "\<exists>a b d. a \<le> b \<and> b < length ps \<and> pairDist (ps ! a) (ps ! b) = Fin d
         \<and> 0 \<le> d \<and> d < M
         \<and> x1 = p_x (ps ! a) \<and> y1 = p_y (ps ! a) \<and> x2 = p_x (ps ! b) \<and> y2 = p_y (ps ! b)
         \<and> lw = Fin 1 \<and> alpha = Fin (0.2 * (1 - d / M))"
  then obtain a b d where ab: "a \<le> b" "b < length ps"
    and d: "pairDist (ps ! a) (ps ! b) = Fin d" "0 \<le> d" "d < M"
    and xy: "x1 = p_x (ps ! a)" "y1 = p_y (ps ! a)" "x2 = p_x (ps ! b)" "y2 = p_y (ps ! b)"
    and lw: "lw = Fin 1" and al: "alpha = Fin (0.2 * (1 - d / M))"
    by blast
  have M: "M \<noteq> 0" using d(2,3) by auto
  have "(a, b, Fin (1 - d / M)) \<in> set (connections (Fin M) ps)"
    using ab d M by (simp add: connections_iff)
  then have "StrokeLine (Fin (1 - d / M) * Fin 0.2) (Fin 1)
         (p_x (ps ! a)) (p_y (ps ! a)) (p_x (ps ! b)) (p_y (ps ! b))
       \<in> set (connectParticles (Fin M) ps)"
    unfolding connectParticles_def set_map by (rule rev_image_eqI) simp
  then show "StrokeLine alpha lw x1 y1 x2 y2 \<in> set (connectParticles (Fin M) ps)"
    by (simp add: xy lw al mult.commute)
next
  assume "(i, j, beta) \<in> set (bgConnections (Fin M) qs i)"
  then have ij: "i < j" "j < length qs" and lt: "bgPairDist (qs ! i) (qs ! j) < Fin M"
    and be: "beta = Fin 0.15 * (Fin 1 - bgPairDist (qs ! i) (qs ! j) / Fin M)"
    by (simp_all add: bgConnections_iff)
  from lt obtain d where d: "bgPairDist (qs ! i) (qs ! j) = Fin d" "0 \<le> d" "d < M"
    unfolding bgPairDist_def Let_def using jsqrt_less_Fin by blast
  have "beta = Fin (0.15 * (1 - d / M))"
    using d by (simp add: be)
  with ij d show "\<exists>d. i < j \<and> j < length qs \<and> bgPairDist (qs ! i) (qs ! j) = Fin d
         \<and> 0 \<le> d \<and> d < M \<and> beta = Fin (0.15 * (1 - d / M))"
    by blast
next
  assume "\<exists>d. i < j \<and> j < length qs \<and> bgPairDist (qs ! i) (qs ! j) = Fin d
         \<and> 0 \<le> d \<and> d < M \<and> beta = Fin (0.15 * (1 - d / M))"
  then obtain d where ij: "i < j" "j < length qs"
    and d: "bgPairDist (qs ! i) (qs ! j) = Fin d" "0 \<le> d" "d < M"
    and be: "beta = Fin (0.15 * (1 - d / M))"
    by blast
  have M: "M \<noteq> 0" using d(2,3) by auto
  show "(i, j, beta) \<in> set (bgConnections (Fin M) qs i)"
    using ij d M by (simp add: bgConnections_iff be)
qed

text \<open>
  Claim C5 as stated, with an opacity of 1 at distance 0, fails: two particles at the same
  position are joined by a line of alpha \<open>0.2\<close>. (The other two lines are those of each
  particle to itself.)
\<close>

theorem C5_counterexample:
  "pairDist midParticle midParticle = Fin 0
   \<and> connectParticles connectionRadius [midParticle, midParticle]
       = [StrokeLine (Fin (1/5)) (Fin 1) (Fin 100) (Fin 100) (Fin 100) (Fin 100),
          StrokeLine (Fin (1/5)) (Fin 1) (Fin 100) (Fin 100) (Fin 100) (Fin 100),
          StrokeLine (Fin (1/5)) (Fin 1) (Fin 100) (Fin 100) (Fin 100) (Fin 100)]"
  by (simp add: connectParticles_def connections_def connectionRadius_def pairDist_def
      midParticle_def Let_def upt_rec)

text \<open>The amended claim C5 for two particles 75 pixels apart: the line between them has alpha \<open>0.1\<close>.\<close>

theorem C5_line_alpha_witness:
  "StrokeLine (Fin (1/10)) (Fin 1) (Fin 100) (Fin 100) (Fin 175) (Fin 100)
     \<in> set (connectParticles (Fin 150) [midParticle, midParticle\<lparr>p_x := Fin 175\<rparr>])
   \<and> pairDist midParticle (midParticle\<lparr>p_x := Fin 175\<rparr>) = Fin 75
   \<and> Fin (1/10) = Fin (0.2 * (1 - 75 / 150))
   \<and> StrokeLine (Fin (1/5)) (Fin 1) (Fin 100) (Fin 100) (Fin 175) (Fin 100)
     \<notin> set (connectParticles (Fin 150) [midParticle, midParticle\<lparr>p_x := Fin 175\<rparr>])"
proof -
  let ?ps = "[midParticle, midParticle\<lparr>p_x := Fin 175\<rparr>]"
  have d: "pairDist midParticle (midParticle\<lparr>p_x := Fin 175\<rparr>) = Fin 75"
    by (simp add: pairDist_def midParticle_def Let_def sqrt_5625)
  note t = C5_line_alpha [of _ "Fin 1" "Fin 100" "Fin 100" "Fin 175" "Fin 100" 150 ?ps]
  have "\<exists>a b d. a \<le> b \<and> b < length ?ps \<and> pairDist (?ps ! a) (?ps ! b) = Fin d
         \<and> 0 \<le> d \<and> d < 150
         \<and> Fin 100 = p_x (?ps ! a) \<and> Fin 100 = p_y (?ps ! a)
         \<and> Fin 175 = p_x (?ps ! b) \<and> Fin 100 = p_y (?ps ! b)
         \<and> Fin 1 = Fin 1 \<and> Fin (1/10) = Fin (0.2 * (1 - d / 150))"
    using d by (intro exI [of _ 0] exI [of _ "Suc 0"] exI [of _ 75]) (simp add: midParticle_def)
  then have m: "StrokeLine (Fin (1/10)) (Fin 1) (Fin 100) (Fin 100) (Fin 175) (Fin 100)
     \<in> set (connectParticles (Fin 150) ?ps)"
    using t [of "Fin (1/10)", THEN conjunct1] by blast
  have "connectParticles (Fin 150) ?ps
      = [StrokeLine (Fin (1/5)) (Fin 1) (Fin 100) (Fin 100) (Fin 100) (Fin 100),
         StrokeLine (Fin (1/10)) (Fin 1) (Fin 100) (Fin 100) (Fin 175) (Fin 100),
         StrokeLine (Fin (1/5)) (Fin 1) (Fin 175) (Fin 100) (Fin 175) (Fin 100)]"
    by (simp add: connectParticles_def connections_def pairDist_def midParticle_def Let_def
        upt_rec sqrt_5625)
  then have n: "StrokeLine (Fin (1/5)) (Fin 1) (Fin 100) (Fin 100) (Fin 175) (Fin 100)
     \<notin> set (connectParticles (Fin 150) ?ps)"
    by simp
  from m d n show ?thesis by simp
qed

section \<open>Resize\<close>

text \<open>
  Claim C7. \<open>NeuralCanvas.resize\<close> on a component with a canvas sets the particle count
  to 120 when the new width is above 1000 and to 60 otherwise, and replaces the
  particles by that many new ones, each made from the new size and fresh values of
  \<open>Math.random\<close> alone: the result is the same whatever the old particles were.
\<close>

theorem C7_resize:
  assumes "nc_canvas nc"
    and "n = (if g_innerWidth g > Fin 1000 then 120 else 60)"
  shows "NeuralCanvas_resize g nc
       = Inr (g\<lparr>g_particleCount := n, g_used := g_used g + 5 * n\<rparr>,
              nc\<lparr>nc_width := g_innerWidth g, nc_height := g_innerHeight g,
                 nc_particles := Some (map (newParticle (g_random g) (g_used g)
                                              (g_innerWidth g) (g_innerHeight g)) [0..<n])\<rparr>)
       \<and> map_option length (particlesAfter (NeuralCanvas_resize g nc)) = Some n
       \<and> NeuralCanvas_resize g (nc\<lparr>nc_particles := old\<rparr>)
         = Inr (g\<lparr>g_particleCount := n, g_used := g_used g + 5 * n\<rparr>,
              nc\<lparr>nc_width := g_innerWidth g, nc_height := g_innerHeight g,
                 nc_particles := Some (map (newParticle (g_random g) (g_used g)
                                              (g_innerWidth g) (g_innerHeight g)) [0..<n])\<rparr>)"
  using assms
  by (simp add: NeuralCanvas_resize_def NeuralCanvas_createParticles_def particlesAfter_def Let_def)

text \<open>Claim C7 at widths 1024 and 800.\<close>

theorem C7_resize_witness:
  "nc_canvas (canvasWith [edgeParticle])
   \<and> map_option length (particlesAfter (NeuralCanvas_resize idleGlobals (canvasWith [edgeParticle])))
       = Some 120
   \<and> map_option length (particlesAfter
        (NeuralCanvas_resize (idleGlobals\<lparr>g_innerWidth := Fin 800\<rparr>) (canvasWith [edgeParticle])))
       = Some 60"
proof -
  have c: "nc_canvas (canvasWith [edgeParticle])" by (simp add: canvasWith_def)
  have n1: "(120::nat) = (if g_innerWidth idleGlobals > Fin 1000 then 120 else 60)"
    by (simp add: idleGlobals_def)
  have n2: "(60::nat) = (if g_innerWidth (idleGlobals\<lparr>g_innerWidth := Fin 800\<rparr>) > Fin 1000 then 120 else 60)"
    by simp
  from C7_resize [OF c n1] C7_resize [OF c n2] c show ?thesis by blast
qed

section \<open>Background particles\<close>

lemma isFinite_Fin: "isFinite v \<Longrightarrow> \<exists>r. v = Fin r"
  by (cases v) auto

lemma wellFormed_Fin:
  assumes "wellFormed p"
  obtains W H x y u v where "b_w p = Fin W" "b_h p = Fin H" "0 \<le> W" "0 \<le> H"
    "b_x p = Fin x" "b_y p = Fin y" "b_vx p = Fin u" "b_vy p = Fin v"
proof -
  from assms have f: "isFinite (b_x p)" "isFinite (b_y p)" "isFinite (b_vx p)" "isFinite (b_vy p)"
    "isFinite (b_w p)" "isFinite (b_h p)" and n: "Fin 0 \<le> b_w p" "Fin 0 \<le> b_h p"
    by (simp_all add: wellFormed_def)
  from f obtain W H x y u v where e: "b_w p = Fin W" "b_h p = Fin H"
    "b_x p = Fin x" "b_y p = Fin y" "b_vx p = Fin u" "b_vy p = Fin v"
    using isFinite_Fin by metis
  with n have "0 \<le> W" "0 \<le> H" by (simp_all add: Fin_le_iff)
  with e that show thesis by blast
qed

lemma update_step:
  assumes "wellFormed p" "\<forall>i. 0 \<le> rnd i \<and> rnd i < 1"
  shows "inside (snd (BackgroundParticle_update rnd k p))
       \<and> wellFormed (snd (BackgroundParticle_update rnd k p))"
proof -
  from assms(1) obtain W H x y u v where e: "b_w p = Fin W" "b_h p = Fin H" "0 \<le> W" "0 \<le> H"
    "b_x p = Fin x" "b_y p = Fin y" "b_vx p = Fin u" "b_vy p = Fin v"
    by (rule wellFormed_Fin)
  have r: "0 \<le> rnd k" "rnd k < 1" "0 \<le> rnd (k + 1)" "rnd (k + 1) < 1"
    using assms(2) by auto
  note s = unit_scale [OF r(1,2) e(3)] unit_scale [OF r(3,4) e(4)]
  show ?thesis
    using e s
    by (auto simp add: BackgroundParticle_update_def BackgroundParticle_reset_def Let_def
        inside_def wellFormed_def Fin_le_iff baseSpeed_def)
qed

lemma updates_inside:
  assumes "\<forall>i. 0 \<le> rnd i \<and> rnd i < 1"
  shows "wellFormed p \<Longrightarrow> 0 < n \<Longrightarrow> inside (snd (BackgroundParticle_updates rnd k p n))"
proof (induction n arbitrary: k p)
  case 0
  then show ?case by simp
next
  case (Suc n)
  obtain k1 q where u: "BackgroundParticle_update rnd k p = (k1, q)" by force
  from update_step [OF Suc.prems(1) assms, of k] u
  have q: "inside q" "wellFormed q" by simp_all
  show ?case
  proof (cases n)
    case 0
    then show ?thesis using u q by simp
  next
    case (Suc m)
    then have "inside (snd (BackgroundParticle_updates rnd k1 q n))"
      using Suc.IH [OF q(2)] by simp
    then show ?thesis using u by simp
  qed
qed

lemma constructor_wellFormed:
  assumes "0 \<le> W" "0 \<le> H" "\<forall>i. 0 \<le> rnd i \<and> rnd i < 1"
  shows "wellFormed (snd (BackgroundParticle_constructor rnd k (Fin W) (Fin H)))
       \<and> inside (snd (BackgroundParticle_constructor rnd k (Fin W) (Fin H)))"
proof -
  have r: "0 \<le> rnd k" "rnd k < 1" "0 \<le> rnd (k + 1)" "rnd (k + 1) < 1"
    using assms(3) by auto
  note s = unit_scale [OF r(1,2) assms(1)] unit_scale [OF r(3,4) assms(2)]
  show ?thesis
    using assms(1,2) s
    by (simp add: BackgroundParticle_constructor_def BackgroundParticle_reset_def
        wellFormed_def inside_def Fin_le_iff baseSpeed_def)
qed

text \<open>
  Claim C10. For a well-formed background particle and values of \<open>Math.random\<close> in
  \<open>[0, 1)\<close>, the position after \<open>update\<close> lies in \<open>[0, w] \<times> [0, h]\<close>, the particle is
  well-formed again, and so the position is inside after any positive number of updates.
  When the velocity step takes the particle out of bounds, \<open>update\<close> is \<open>reset\<close>: it
  uses six values of \<open>Math.random\<close> for a new position, velocity, size and life, and the
  old velocity is not reflected. (By \<open>constructor_wellFormed\<close> the particles the
  constructor makes are well-formed and inside.)
\<close>

theorem C10_background_particle:
  assumes "wellFormed p" "\<forall>i. 0 \<le> rnd i \<and> rnd i < 1"
  shows "inside (snd (BackgroundParticle_update rnd k p))
       \<and> wellFormed (snd (BackgroundParticle_update rnd k p))
       \<and> (0 < n \<longrightarrow> inside (snd (BackgroundParticle_updates rnd k p n)))
       \<and> (b_x p + b_vx p < Fin 0 \<or> b_x p + b_vx p > b_w p
          \<or> b_y p + b_vy p < Fin 0 \<or> b_y p + b_vy p > b_h p \<longrightarrow>
            BackgroundParticle_update rnd k p
              = (k + 6,
                 p\<lparr>b_x := Fin (rnd k) * b_w p,
                   b_y := Fin (rnd (k + 1)) * b_h p,
                   b_vx := (Fin (rnd (k + 2)) - Fin 0.5) * baseSpeed,
                   b_vy := (Fin (rnd (k + 3)) - Fin 0.5) * baseSpeed,
                   b_size := Fin (rnd (k + 4)) * Fin 2,
                   b_life := Fin (rnd (k + 5)) * Fin 100\<rparr>))"
proof -
  have "b_x p + b_vx p < Fin 0 \<or> b_x p + b_vx p > b_w p
          \<or> b_y p + b_vy p < Fin 0 \<or> b_y p + b_vy p > b_h p \<Longrightarrow>
            BackgroundParticle_update rnd k p
              = (k + 6,
                 p\<lparr>b_x := Fin (rnd k) * b_w p,
                   b_y := Fin (rnd (k + 1)) * b_h p,
                   b_vx := (Fin (rnd (k + 2)) - Fin 0.5) * baseSpeed,
                   b_vy := (Fin (rnd (k + 3)) - Fin 0.5) * baseSpeed,
                   b_size := Fin (rnd (k + 4)) * Fin 2,
                   b_life := Fin (rnd (k + 5)) * Fin 100\<rparr>)"
    by (simp add: BackgroundParticle_update_def BackgroundParticle_reset_def Let_def)
  with update_step [OF assms, of k] updates_inside [OF assms(2,1), of n k]
  show ?thesis by blast
qed

text \<open>Claim C10 for a particle that leaves through the left edge.\<close>

theorem C10_background_particle_witness:
  "wellFormed bgEdge
   \<and> b_x bgEdge + b_vx bgEdge < Fin 0
   \<and> BackgroundParticle_update (\<lambda>i. 1/2) 0 bgEdge
       = (6, bgEdge\<lparr>b_x := Fin 50, b_y := Fin 50, b_vx := Fin 0, b_vy := Fin 0,
                    b_size := Fin 1, b_life := Fin 50\<rparr>)
   \<and> inside (snd (BackgroundParticle_update (\<lambda>i. 1/2) 0 bgEdge))
   \<and> inside (snd (BackgroundParticle_updates (\<lambda>i. 1/2) 0 bgEdge 3))"
proof -
  have w: "wellFormed bgEdge"
    by (simp add: wellFormed_def bgEdge_def Fin_le_iff)
  have r: "\<forall>i::nat. 0 \<le> (\<lambda>i. 1/2::real) i \<and> (\<lambda>i. 1/2::real) i < 1" by simp
  have c: "b_x bgEdge + b_vx bgEdge < Fin 0" by (simp add: bgEdge_def)
  note t = C10_background_particle [OF w r, of 0 3]
  have u: "BackgroundParticle_update (\<lambda>i. 1/2) 0 bgEdge
       = (6, bgEdge\<lparr>b_x := Fin 50, b_y := Fin 50, b_vx := Fin 0, b_vy := Fin 0,
                    b_size := Fin 1, b_life := Fin 50\<rparr>)"
    using t [THEN conjunct2, THEN conjunct2, THEN conjunct2] c
    by (simp add: bgEdge_def baseSpeed_def)
  have "0 < (3::nat)" by simp
  with t w c u show ?thesis by blast
qed

section \<open>The inactive pointer\<close>

lemma dispatch_inactiveAtSentinel:
  "inactiveAtSentinel st \<Longrightarrow> \<not> reportsSentinel e \<Longrightarrow> inactiveAtSentinel (dispatch e st)"
  by (cases e)
     (auto simp add: inactiveAtSentinel_def InputHandler_handleMouseMove_def
        InputHandler_handleMouseDown_def InputHandler_handleMouseUp_def
        InputHandler_handleTouchStart_def InputHandler_handleTouchMove_def
        InputHandler_handleTouchEnd_def)

lemma fold_inactiveAtSentinel:
  "inactiveAtSentinel st \<Longrightarrow> \<forall>e\<in>set es. \<not> reportsSentinel e \<Longrightarrow>
   inactiveAtSentinel (fold dispatch es st)"
  by (induction es arbitrary: st) (simp_all add: dispatch_inactiveAtSentinel)

lemma pointerPart_inactive: "pointerPart False mousePos n = n"
  by (simp add: pointerPart_def)

lemma pointerPart_active:
  "n_acc (pointerPart True \<lparr>v_x = Fin 100, v_y = Fin 100\<rparr>
            (strayNode\<lparr>n_pos := \<lparr>v_x = Fin 175, v_y = Fin 100\<rparr>\<rparr>))
     = \<lparr>v_x = Fin 7, v_y = Fin 0\<rparr>"
  by (simp add: pointerPart_def strayNode_def Vector2_def orZero_def Vector2_dist_def
      Vector2_sub_def Vector2_normalize_def Vector2_mag_def Vector2_div_def Vector2_mult_def
      Vector2_add_def NeuralNode_activate_def ann_mouseRadius_def ann_mouseForce_def Let_def
      sqrt_5625)

text \<open>
  Claim C6. In every state of \<open>STATE.mouse\<close> that the handlers reach from the initial
  one, through events none of which reports the coordinates \<open>(-9999, -9999)\<close> itself:
  when the pointer holds \<open>(-9999, -9999)\<close> it is inactive, the nodes are handed
  \<open>(-9999, -9999)\<close>, and \<open>NeuralNode.update\<close> skips the pointer block for every node,
  wherever the node is: each node gets the spring and the integration and nothing else.
  (The background particles of this script, \<open>BackgroundParticle.update\<close>, never read
  the pointer.)
\<close>

theorem C6_inactive_pointer:
  assumes "st = fold dispatch es initialMouse"
    and "\<forall>e\<in>set es. \<not> reportsSentinel e"
    and "m_x st = sentinel" "m_y st = sentinel"
  shows "\<not> m_isActive st
       \<and> mouseVec st rc = Vector2 sentinel sentinel
       \<and> NeuralNetworkSystem_updateNodes True st rc nodes
           = map (\<lambda>n. integratePart (springPart n)) nodes"
proof -
  have "inactiveAtSentinel initialMouse"
    by (simp add: inactiveAtSentinel_def initialMouse_def)
  then have "inactiveAtSentinel st"
    unfolding assms(1) using assms(2) by (rule fold_inactiveAtSentinel)
  then have i: "\<not> m_isActive st"
    using assms(3,4) by (simp add: inactiveAtSentinel_def)
  then show ?thesis
    by (simp add: NeuralNetworkSystem_updateNodes_def NeuralNode_update_def
        pointerPart_inactive mouseVec_def)
qed

text \<open>
  Claim C6 after a mouse move, a touch and its end, for a node 9 pixels from
  \<open>(-9999, -9999)\<close>; \<open>pointerPart_active\<close> shows an active pointer at 75 pixels
  pushing.
\<close>

theorem C6_inactive_pointer_witness:
  "fold dispatch [MouseMove (Fin 300) (Fin 200), TouchStart [(Fin 10, Fin 10)], TouchEnd]
       initialMouse
     = \<lparr>m_x = sentinel, m_y = sentinel, m_isActive = False, m_isClicking = False\<rparr>
   \<and> \<not> reportsSentinel (MouseMove (Fin 300) (Fin 200))
   \<and> \<not> reportsSentinel (TouchStart [(Fin 10, Fin 10)])
   \<and> \<not> reportsSentinel TouchEnd
   \<and> NeuralNetworkSystem_updateNodes True
         \<lparr>m_x = sentinel, m_y = sentinel, m_isActive = False, m_isClicking = False\<rparr>
         canvasRect [strayNode]
       = [integratePart (springPart strayNode)]"
proof -
  let ?es = "[MouseMove (Fin 300) (Fin 200), TouchStart [(Fin 10, Fin 10)], TouchEnd]"
  let ?st = "\<lparr>m_x = sentinel, m_y = sentinel, m_isActive = False, m_isClicking = False\<rparr>"
  have s: "?st = fold dispatch ?es initialMouse"
    by (simp add: initialMouse_def InputHandler_handleMouseMove_def
        InputHandler_handleTouchStart_def InputHandler_handleTouchEnd_def)
  have e: "\<forall>e\<in>set ?es. \<not> reportsSentinel e"
    by (simp add: sentinel_def)
  have p: "m_x ?st = sentinel" "m_y ?st = sentinel" by simp_all
  from C6_inactive_pointer [OF s e p, of canvasRect "[strayNode]"] s e
  show ?thesis by simp
qed

section \<open>A missing canvas\<close>

lemma BackgroundSystem_missing_canvas:
  assumes "e_canvasElement pg = None"
  shows "BackgroundSystem_constructor pg
       = (pg, \<lparr>bs_canvas = \<lparr>cc_canvas = None, cc_width = Fin 0, cc_height = Fin 0\<rparr>,
                bs_particles = [], bs_initialized = False\<rparr>)"
    and "bs = snd (BackgroundSystem_constructor pg) \<Longrightarrow> BackgroundSystem_update pg' bs = (pg', bs)"
    and "bs = snd (BackgroundSystem_constructor pg) \<Longrightarrow> BackgroundSystem_draw pg' bs = pg'"
    and "bs = snd (BackgroundSystem_constructor pg) \<Longrightarrow>
         CanvasController_resize (bs_canvas bs) = bs_canvas bs
         \<and> CanvasController_clear (bs_canvas bs) = []"
proof -
  show c: "BackgroundSystem_constructor pg
       = (pg, \<lparr>bs_canvas = \<lparr>cc_canvas = None, cc_width = Fin 0, cc_height = Fin 0\<rparr>,
                bs_particles = [], bs_initialized = False\<rparr>)"
    using assms
    by (simp add: BackgroundSystem_constructor_def CanvasController_constructor_def isValid_def Let_def)
  show "bs = snd (BackgroundSystem_constructor pg) \<Longrightarrow> BackgroundSystem_update pg' bs = (pg', bs)"
    by (simp add: c BackgroundSystem_update_def)
  show "bs = snd (BackgroundSystem_constructor pg) \<Longrightarrow> BackgroundSystem_draw pg' bs = pg'"
    by (simp add: c BackgroundSystem_draw_def)
  show "bs = snd (BackgroundSystem_constructor pg) \<Longrightarrow>
         CanvasController_resize (bs_canvas bs) = bs_canvas bs
         \<and> CanvasController_clear (bs_canvas bs) = []"
    by (simp add: c CanvasController_resize_def CanvasController_clear_def isValid_def)
qed

text \<open>
  Claim C8 fails on \<open>NeuralCanvas\<close>. When the document has no canvas the constructor
  returns at once, without an error and without any effect on the globals; but it leaves
  \<open>this.particles\<close> and \<open>this.ctx\<close> undefined, so \<open>activateGodMode\<close>, which constructs a
  component and iterates over its particles, raises a \<open>TypeError\<close>, and so do \<open>draw\<close>
  and \<open>resize\<close> on the object. (By \<open>BackgroundSystem_missing_canvas\<close>, the methods of
  \<open>CanvasController\<close> and \<open>BackgroundSystem\<close> are guarded and do nothing.)
\<close>

theorem C8_missing_canvas:
  assumes "\<not> g_hasCanvas g"
  shows "NeuralCanvas_constructor g = Inr (g, uninitialised)
       \<and> activateGodMode g = Inl TypeError
       \<and> NeuralCanvas_draw g' uninitialised = Inl TypeError
       \<and> NeuralCanvas_resize g' uninitialised = Inl TypeError"
  using assms
  by (simp add: NeuralCanvas_constructor_def activateGodMode_def NeuralCanvas_draw_def
      NeuralCanvas_resize_def uninitialised_def)

text \<open>Claim C8's failing input: the page without its canvas.\<close>

theorem C8_missing_canvas_witness:
  "\<not> g_hasCanvas (idleGlobals\<lparr>g_hasCanvas := False\<rparr>)
   \<and> NeuralCanvas_constructor (idleGlobals\<lparr>g_hasCanvas := False\<rparr>)
       = Inr (idleGlobals\<lparr>g_hasCanvas := False\<rparr>, uninitialised)
   \<and> activateGodMode (idleGlobals\<lparr>g_hasCanvas := False\<rparr>) = Inl TypeError"
  using C8_missing_canvas [of "idleGlobals\<lparr>g_hasCanvas := False\<rparr>"]
  by simp

end
